theory Spec2Isabelle
  imports Main "HOL-Library.Sublist" "HOL-Library.Char_ord" "HOL-Library.List_Lexorder"
begin

section \<open>JavaScript values\<close>

text \<open>
  The gateway is JavaScript, so every field of a request, of a parameter object and of an
  envelope is a dynamically typed value. A string is a \<open>string\<close>: the list of its UTF-16
  code units, one character for each, so that \<open>length\<close> is the \<open>.length\<close> of the source;
  a character has 8 bits, so the model covers the strings whose code units are below 0x100
  (ASCII and Latin-1). A number is an \<open>int\<close> (the integer-valued doubles that
  \<open>Number.prototype.toString\<close> prints in plain decimal; NaN and fractions are outside the
  model); an object is the list of its own properties in the order in which JavaScript
  enumerates them, each key once; a missing property reads as \<open>JUndefined\<close>.
\<close>

datatype jsval =
    JUndefined
  | JNull
  | JBool bool
  | JNum int
  | JStr string
  | JArr "jsval list"
  | JObj "(string \<times> jsval) list"

datatype js_error = Error string | TypeError string | ReferenceError string

text \<open>\<open>ToBoolean\<close>: the falsy values are undefined, null, false, 0 and the empty string.\<close>

fun truthy :: "jsval \<Rightarrow> bool" where
  "truthy JUndefined = False"
| "truthy JNull = False"
| "truthy (JBool b) = b"
| "truthy (JNum n) = (n \<noteq> 0)"
| "truthy (JStr s) = (s \<noteq> [])"
| "truthy (JArr vs) = True"
| "truthy (JObj kvs) = True"

text \<open>The operator \<open>a || b\<close>.\<close>

definition js_or :: "jsval \<Rightarrow> jsval \<Rightarrow> jsval" where
  "js_or a b = (if truthy a then a else b)"

fun typeof :: "jsval \<Rightarrow> string" where
  "typeof JUndefined = ''undefined''"
| "typeof JNull = ''object''"
| "typeof (JBool b) = ''boolean''"
| "typeof (JNum n) = ''number''"
| "typeof (JStr s) = ''string''"
| "typeof (JArr vs) = ''object''"
| "typeof (JObj kvs) = ''object''"

text \<open>Property access \<open>obj.key\<close> on a value that is known to be an object.\<close>

definition js_prop :: "(string \<times> jsval) list \<Rightarrow> string \<Rightarrow> jsval" where
  "js_prop kvs k = (case map_of kvs k of None \<Rightarrow> JUndefined | Some v \<Rightarrow> v)"

text \<open>
  Property access \<open>v.key\<close> on any value: reading a property of undefined or null throws
  a TypeError; the primitives and the arrays have none of the properties the gateway reads.
\<close>

fun get_prop :: "jsval \<Rightarrow> string \<Rightarrow> js_error + jsval" where
  "get_prop JUndefined k = Inl (TypeError ''Cannot read properties of undefined'')"
| "get_prop JNull k = Inl (TypeError ''Cannot read properties of null'')"
| "get_prop (JObj kvs) k = Inr (js_prop kvs k)"
| "get_prop v k = Inr JUndefined"

subsection \<open>Number and string conversion\<close>

fun digits_of :: "nat \<Rightarrow> string" where
  "digits_of n =
     (if n < 10 then [''0123456789'' ! n]
      else digits_of (n div 10) @ [''0123456789'' ! (n mod 10)])"

declare digits_of.simps [simp del]

definition number_text :: "int \<Rightarrow> string" where
  "number_text n = (if n < 0 then CHR ''-'' # digits_of (nat (- n)) else digits_of (nat n))"

definition join_with :: "string \<Rightarrow> string list \<Rightarrow> string" where
  "join_with sep xs = (case xs of [] \<Rightarrow> [] | y # ys \<Rightarrow> y @ concat (map (\<lambda>s. sep @ s) ys))"

text \<open>
  \<open>ToString\<close>, as a template literal and a property key apply it: an array joins its
  elements with commas (undefined and null as the empty string), a plain object is
  \<open>[object Object]\<close>.
\<close>

fun js_toString :: "jsval \<Rightarrow> string"
and js_toStrings :: "jsval list \<Rightarrow> string list"
where
  "js_toString JUndefined = ''undefined''"
| "js_toString JNull = ''null''"
| "js_toString (JBool b) = (if b then ''true'' else ''false'')"
| "js_toString (JNum n) = number_text n"
| "js_toString (JStr s) = s"
| "js_toString (JArr vs) = join_with '','' (js_toStrings vs)"
| "js_toString (JObj kvs) = ''[object Object]''"
| "js_toStrings [] = []"
| "js_toStrings (v # vs) =
     (if v = JUndefined \<or> v = JNull then [] else js_toString v) # js_toStrings vs"

subsection \<open>JSON.stringify\<close>

text \<open>
  \<open>QuoteJSONString\<close>: the double quote and the backslash are escaped, the control
  characters below 0x20 are written with their short escape or as \<open>\u00XX\<close>, every other
  character stands for itself.
\<close>

definition hex_digit :: "nat \<Rightarrow> char" where
  "hex_digit n = ''0123456789abcdef'' ! n"

definition json_escape :: "char \<Rightarrow> string" where
  "json_escape c =
     (if c = CHR 0x22 then [CHR 0x5C, CHR 0x22]
      else if c = CHR 0x5C then [CHR 0x5C, CHR 0x5C]
      else if c = CHR 0x08 then [CHR 0x5C, CHR ''b'']
      else if c = CHR 0x09 then [CHR 0x5C, CHR ''t'']
      else if c = CHR 0x0A then [CHR 0x5C, CHR ''n'']
      else if c = CHR 0x0C then [CHR 0x5C, CHR ''f'']
      else if c = CHR 0x0D then [CHR 0x5C, CHR ''r'']
      else if (of_char c :: nat) < 32
        then [CHR 0x5C, CHR ''u'', CHR ''0'', CHR ''0'',
              hex_digit (of_char c div 16), hex_digit (of_char c mod 16)]
      else [c])"

definition json_quote :: "string \<Rightarrow> string" where
  "json_quote s = CHR 0x22 # concat (map json_escape s) @ [CHR 0x22]"

text \<open>
  The serialisation of a value, \<open>None\<close> where \<open>JSON.stringify\<close> returns undefined.
  An undefined array element is written \<open>null\<close>; a property whose value is undefined is
  left out; there is no whitespace.
\<close>

definition object_text :: "string list \<Rightarrow> string" where
  "object_text ps = ''{'' @ join_with '','' ps @ ''}''"

fun json_text :: "jsval \<Rightarrow> string option"
and json_elems :: "jsval list \<Rightarrow> string list"
and json_props :: "(string \<times> jsval) list \<Rightarrow> string list"
where
  "json_text JUndefined = None"
| "json_text JNull = Some ''null''"
| "json_text (JBool b) = Some (if b then ''true'' else ''false'')"
| "json_text (JNum n) = Some (number_text n)"
| "json_text (JStr s) = Some (json_quote s)"
| "json_text (JArr vs) = Some (''['' @ join_with '','' (json_elems vs) @ '']'')"
| "json_text (JObj kvs) = Some (object_text (json_props kvs))"
| "json_elems [] = []"
| "json_elems (v # vs) = (case json_text v of None \<Rightarrow> ''null'' | Some s \<Rightarrow> s) # json_elems vs"
| "json_props [] = []"
| "json_props ((k, v) # kvs) =
     (case json_text v of
        None \<Rightarrow> json_props kvs
      | Some s \<Rightarrow> (json_quote k @ '':'' @ s) # json_props kvs)"

definition JSON_stringify :: "jsval \<Rightarrow> jsval" where
  "JSON_stringify v = (case json_text v of None \<Rightarrow> JUndefined | Some s \<Rightarrow> JStr s)"

section \<open>The ethers primitives\<close>

text \<open>
  A \<open>BytesLike\<close> argument of ethers is a \<open>Uint8Array\<close> or a \<open>0x\<close>-prefixed hex
  string with an even number of digits; ethers returns bytes as lower-case hex strings.
\<close>

datatype byteslike = U8 string | Hex string

definition hex_byte :: "char \<Rightarrow> string" where
  "hex_byte c = [hex_digit (of_char c div 16), hex_digit (of_char c mod 16)]"

definition hexlify :: "string \<Rightarrow> string" where
  "hexlify bs = ''0x'' @ concat (map hex_byte bs)"

definition hex_val :: "char \<Rightarrow> nat option" where
  "hex_val c =
     (let k = (of_char c :: nat) in
      if 48 \<le> k \<and> k \<le> 57 then Some (k - 48)
      else if 97 \<le> k \<and> k \<le> 102 then Some (k - 87)
      else if 65 \<le> k \<and> k \<le> 70 then Some (k - 55)
      else None)"

fun unhex :: "string \<Rightarrow> string option" where
  "unhex [] = Some []"
| "unhex [c] = None"
| "unhex (a # b # cs) =
     (case hex_val a of None \<Rightarrow> None | Some x \<Rightarrow>
      case hex_val b of None \<Rightarrow> None | Some y \<Rightarrow>
      case unhex cs of None \<Rightarrow> None | Some r \<Rightarrow> Some (char_of (16 * x + y) # r))"

fun getBytes :: "byteslike \<Rightarrow> string option" where
  "getBytes (U8 bs) = Some bs"
| "getBytes (Hex s) = (if take 2 s = ''0x'' then unhex (drop 2 s) else None)"

fun getBytesList :: "byteslike list \<Rightarrow> string option" where
  "getBytesList [] = Some []"
| "getBytesList (x # xs) =
     (case getBytes x of None \<Rightarrow> None | Some b \<Rightarrow>
      case getBytesList xs of None \<Rightarrow> None | Some r \<Rightarrow> Some (b @ r))"

definition ethers_concat :: "byteslike list \<Rightarrow> string option" where
  "ethers_concat xs = map_option hexlify (getBytesList xs)"

text \<open>\<open>ethers.toBeHex(v, 1)\<close>: one byte, and an exception when \<open>v\<close> does not fit.\<close>

definition toBeHex1 :: "nat \<Rightarrow> string option" where
  "toBeHex1 v = (if v < 256 then Some (hexlify [char_of v]) else None)"

text \<open>
  \<open>ethers.toUtf8Bytes\<close>: a code unit below 0x80 is one byte, a code unit from 0x80 to 0xFF
  is the two bytes \<open>110xxxxx 10xxxxxx\<close>. A sequence of bytes is a \<open>string\<close> too, one
  character for each byte.
\<close>

definition utf8_unit :: "char \<Rightarrow> string" where
  "utf8_unit c =
     (let k = (of_char c :: nat) in
      if k < 128 then [c] else [char_of (192 + k div 64), char_of (128 + k mod 64)])"

definition toUtf8Bytes :: "string \<Rightarrow> string" where
  "toUtf8Bytes s = concat (map utf8_unit s)"

text \<open>
  What ethers computes is not part of the repository: keccak-256 on bytes, and the
  secp256k1 signature of the wallet's key over a 32-byte hash, are parameters of the model.
\<close>

record ecsig =
  sig_r :: string
  sig_s :: string
  sig_v :: nat

record crypto =
  keccak :: "string \<Rightarrow> string"
  ecsign :: "string \<Rightarrow> ecsig"

definition keccak256_bytes :: "crypto \<Rightarrow> string \<Rightarrow> string" where
  "keccak256_bytes L bs = hexlify (keccak L bs)"

definition ethers_keccak256 :: "crypto \<Rightarrow> byteslike \<Rightarrow> string option" where
  "ethers_keccak256 L x = map_option (keccak256_bytes L) (getBytes x)"

definition signingKey_sign :: "crypto \<Rightarrow> string \<Rightarrow> ecsig option" where
  "signingKey_sign L h = map_option (ecsign L) (getBytes (Hex h))"

definition eip191_prefix :: string where
  "eip191_prefix = CHR 0x19 # ''Ethereum Signed Message:'' @ [CHR 0x0A] @ ''32''"


definition invalid_bytes :: js_error where
  "invalid_bytes = TypeError ''invalid BytesLike value''"

section \<open>utils/signer.js\<close>

text \<open>
  \<open>signData(dataBytes, wallet)\<close>: hash the data, wrap the hash in the EIP-191 prefix,
  hash again, sign, and serialise \<open>r\<close>, \<open>s\<close>, \<open>v\<close> in this order. Every ethers call that
  can throw is a branch. The wrapping and the signing are written out twice in the source,
  here and in \<open>createEnvelope\<close>, with the same text; they are \<open>eip191_hash\<close> and
  \<open>sign_and_serialise\<close>.
\<close>

definition sign_and_serialise :: "crypto \<Rightarrow> string \<Rightarrow> js_error + string" where
  "sign_and_serialise L messageHash =
     (case signingKey_sign L messageHash of None \<Rightarrow> Inl invalid_bytes | Some signature \<Rightarrow>
      case toBeHex1 (sig_v signature) of None \<Rightarrow> Inl invalid_bytes | Some v \<Rightarrow>
      case ethers_concat [Hex (hexlify (sig_r signature)), Hex (hexlify (sig_s signature)), Hex v] of
        None \<Rightarrow> Inl invalid_bytes
      | Some sg \<Rightarrow> Inr sg)"

definition eip191_hash :: "crypto \<Rightarrow> string \<Rightarrow> js_error + string" where
  "eip191_hash L hash =
     (case getBytes (Hex hash) of None \<Rightarrow> Inl invalid_bytes | Some h \<Rightarrow>
      case ethers_concat [U8 (toUtf8Bytes eip191_prefix), U8 h] of
        None \<Rightarrow> Inl invalid_bytes
      | Some cat \<Rightarrow>
          (case ethers_keccak256 L (Hex cat) of None \<Rightarrow> Inl invalid_bytes | Some m \<Rightarrow> Inr m))"

definition signData :: "crypto \<Rightarrow> string \<Rightarrow> js_error + string" where
  "signData L dataBytes =
     (let dataHash = keccak256_bytes L dataBytes in
      case eip191_hash L dataHash of Inl err \<Rightarrow> Inl err
      | Inr messageHash \<Rightarrow> sign_and_serialise L messageHash)"

text \<open>
  \<open>signResult(result, wallet)\<close>: \<open>JSON.stringify\<close> of a result that is undefined is
  undefined, and \<open>toUtf8Bytes\<close> of undefined throws.
\<close>

definition signResult :: "crypto \<Rightarrow> jsval \<Rightarrow> js_error + string" where
  "signResult L result =
     (case JSON_stringify result of
        JStr resultJson \<Rightarrow> signData L (toUtf8Bytes resultJson)
      | _ \<Rightarrow> Inl (TypeError ''invalid string value''))"

section \<open>utils/envelope.js\<close>

text \<open>
  The envelope object; field \<open>x\<close> of the source is \<open>e_x\<close>, and a field that has not been
  assigned yet is \<open>JUndefined\<close>.
\<close>

record envelope =
  e_name :: jsval
  e_method :: jsval
  e_params :: jsval
  e_result :: jsval
  e_cursor :: jsval
  e_prev_digest :: jsval
  e_meta :: jsval
  e_cache_ttl :: jsval
  e_digest :: jsval
  e_signature :: jsval

text \<open>
  \<open>canonicalizeJSON(obj)\<close>: the keys sorted (by code unit, the default of
  \<open>Array.prototype.sort\<close>), copied into a fresh object in that order, and stringified.
  The fresh object enumerates its keys as every object does: the array indices first (the
  canonical decimal texts of the integers from 0 to 4294967294), in ascending numeric
  order, then the other keys in the order of their creation. The assignment
  \<open>acc['__proto__'] = v\<close> creates no property.
\<close>

definition is_digit :: "char \<Rightarrow> bool" where
  "is_digit c = (48 \<le> (of_char c :: nat) \<and> (of_char c :: nat) \<le> 57)"

definition digits_value :: "string \<Rightarrow> nat" where
  "digits_value k = foldl (\<lambda>acc c. 10 * acc + ((of_char c :: nat) - 48)) 0 k"

definition is_array_index :: "string \<Rightarrow> bool" where
  "is_array_index k =
     (k = ''0'' \<or>
      (k \<noteq> [] \<and> hd k \<noteq> CHR ''0'' \<and> list_all is_digit k \<and> digits_value k < 2 ^ 32 - 1))"

definition own_key_order :: "string list \<Rightarrow> string list" where
  "own_key_order keys =
     sort_key digits_value (filter is_array_index keys)
     @ filter (\<lambda>k. \<not> is_array_index k) keys"

definition canonicalizeJSON :: "(string \<times> jsval) list \<Rightarrow> string" where
  "canonicalizeJSON obj =
     object_text (json_props (map (\<lambda>key. (key, js_prop obj key))
       (own_key_order (filter (\<lambda>key. key \<noteq> ''__proto__'') (sort (map fst obj))))))"

definition computeDigest :: "crypto \<Rightarrow> envelope \<Rightarrow> string" where
  "computeDigest L envelope =
     (let canonical =
        [(''cache_ttl'', js_or (e_cache_ttl envelope) (JNum 0)),
         (''cursor'', js_or (e_cursor envelope) JNull),
         (''meta'', js_or (e_meta envelope) (JStr [])),
         (''method'', js_or (e_method envelope) (JStr [])),
         (''name'', js_or (e_name envelope) (JStr [])),
         (''params'', js_or (e_params envelope) (JStr [])),
         (''prev_digest'', js_or (e_prev_digest envelope) JNull),
         (''result'', js_or (e_result envelope) (JStr []))];
        json = canonicalizeJSON canonical
      in keccak256_bytes L (toUtf8Bytes json))"

text \<open>
  The argument of \<open>createEnvelope\<close>; a destructuring default applies exactly when the
  property is undefined (missing, or present with the value undefined).
\<close>

record envelope_params =
  p_name :: jsval
  p_method :: jsval
  p_params :: jsval
  p_result :: jsval
  p_cursor :: jsval
  p_prevDigest :: jsval
  p_meta :: jsval
  p_cacheTtl :: jsval

definition default_to :: "jsval \<Rightarrow> jsval \<Rightarrow> jsval" where
  "default_to v d = (if v = JUndefined then d else v)"

definition string_or_json :: "jsval \<Rightarrow> jsval" where
  "string_or_json v = (if typeof v = ''string'' then v else JSON_stringify v)"

definition unsigned_envelope :: "envelope_params \<Rightarrow> envelope" where
  "unsigned_envelope p =
     (let cursor = default_to (p_cursor p) JNull;
          prevDigest = default_to (p_prevDigest p) JNull;
          meta = default_to (p_meta p) (JObj []);
          cacheTtl = default_to (p_cacheTtl p) (JNum 30)
      in \<lparr> e_name = p_name p,
           e_method = p_method p,
           e_params = string_or_json (p_params p),
           e_result = string_or_json (p_result p),
           e_cursor = js_or cursor JNull,
           e_prev_digest = js_or prevDigest JNull,
           e_meta = string_or_json meta,
           e_cache_ttl = cacheTtl,
           e_digest = JUndefined,
           e_signature = JUndefined \<rparr>)"

definition createEnvelope :: "crypto \<Rightarrow> envelope_params \<Rightarrow> js_error + envelope" where
  "createEnvelope L p =
     (let envelope = unsigned_envelope p;
          digest = computeDigest L envelope;
          envelope = envelope\<lparr>e_digest := JStr digest\<rparr>
      in case eip191_hash L digest of Inl err \<Rightarrow> Inl err
         | Inr messageHash \<Rightarrow>
             (case sign_and_serialise L messageHash of Inl err \<Rightarrow> Inl err
              | Inr sg \<Rightarrow> Inr (envelope\<lparr>e_signature := JStr sg\<rparr>)))"

subsection \<open>The canonical preimage, as the specification words it\<close>

text \<open>
  The specification fixes the digest preimage by its text: one JSON object, the keys
  \<open>cache_ttl\<close>, \<open>cursor\<close>, \<open>meta\<close>, \<open>method\<close>, \<open>name\<close>, \<open>params\<close>, \<open>prev_digest\<close>,
  \<open>result\<close> in this order, one comma between two fields, no whitespace, each value in its
  JSON form and an absent value as the literal \<open>null\<close>. This definition follows those
  words; \<open>computeDigest\<close> above follows the source.
\<close>

definition key_text :: "string \<Rightarrow> string" where
  "key_text k = CHR 0x22 # k @ [CHR 0x22, CHR '':'']"

definition field_text :: "jsval \<Rightarrow> string" where
  "field_text v = (case json_text v of None \<Rightarrow> ''null'' | Some s \<Rightarrow> s)"

definition canonical_preimage :: "envelope \<Rightarrow> string" where
  "canonical_preimage e =
     ''{'' @ key_text ''cache_ttl'' @ field_text (e_cache_ttl e) @ '','' @
     key_text ''cursor'' @ field_text (e_cursor e) @ '','' @
     key_text ''meta'' @ field_text (e_meta e) @ '','' @
     key_text ''method'' @ field_text (e_method e) @ '','' @
     key_text ''name'' @ field_text (e_name e) @ '','' @
     key_text ''params'' @ field_text (e_params e) @ '','' @
     key_text ''prev_digest'' @ field_text (e_prev_digest e) @ '','' @
     key_text ''result'' @ field_text (e_result e) @ ''}''"

subsection \<open>Reading a signature back\<close>

text \<open>
  The verifier contract reads a 65-byte signature as \<open>r\<close> (bytes 0 to 31), \<open>s\<close> (bytes 32
  to 63) and \<open>v\<close> (byte 64). A signature is low-S when \<open>s\<close>, read big-endian, is at most
  half the order of the secp256k1 group.
\<close>

definition split_signature :: "string \<Rightarrow> ecsig" where
  "split_signature sg =
     \<lparr> sig_r = take 32 sg, sig_s = take 32 (drop 32 sg), sig_v = of_char (sg ! 64) \<rparr>"

definition be_nat :: "string \<Rightarrow> nat" where
  "be_nat bs = foldl (\<lambda>acc c. 256 * acc + of_char c) 0 bs"

definition secp256k1_n :: nat where
  "secp256k1_n = 0xFFFFFFFFFFFFFFFFFFFFFFFFFFFFFFFEBAAEDCE6AF48A03BBFD25E8CD0364141"

definition low_s :: "string \<Rightarrow> bool" where
  "low_s s = (be_nat s \<le> secp256k1_n div 2)"

definition hex_bytes :: "jsval \<Rightarrow> string option" where
  "hex_bytes v = (case v of JStr s \<Rightarrow> getBytes (Hex s) | _ \<Rightarrow> None)"

subsection \<open>Stand-ins for the primitives\<close>

text \<open>
  To run the model on a concrete input the two primitives need values. These stand-ins
  have the shape of the real ones (a 32-byte hash; a signature with 32-byte \<open>r\<close> and \<open>s\<close>
  and \<open>v = 27\<close>, and a recovery function that accepts exactly what the stand-in signs) and
  nothing else of them.
\<close>

definition stub_crypto :: crypto where
  "stub_crypto =
     \<lparr> keccak = (\<lambda>m. replicate 32 (char_of (length m))),
       ecsign = (\<lambda>h. \<lparr> sig_r = replicate 32 (CHR 0x01), sig_s = CHR 0x00 # take 31 h,
                       sig_v = 27 \<rparr>) \<rparr>"

definition stub_ecrecover :: "string \<Rightarrow> ecsig \<Rightarrow> string" where
  "stub_ecrecover h sg = (if sig_s sg = CHR 0x00 # take 31 h then ''gateway'' else ''nobody'')"

definition stub_params :: envelope_params where
  "stub_params =
     \<lparr> p_name = JStr ''pricefeed.eth'',
       p_method = JStr ''pricefeed'',
       p_params = JObj [(''pair'', JStr ''ethereum'')],
       p_result = JObj [(''success'', JBool True)],
       p_cursor = JUndefined,
       p_prevDigest = JUndefined,
       p_meta = JUndefined,
       p_cacheTtl = JUndefined \<rparr>"

section \<open>middleware/rateLimit.js\<close>

text \<open>
  A limiter holds, for every key it has seen, the list of the times (milliseconds, as
  \<open>Date.now()\<close> returns them) of the requests it admitted. The constructor replaces a
  missing or zero option by its default.
\<close>

record RateLimiter =
  windowMs :: int
  maxRequests :: int
  store :: "jsval \<Rightarrow> int list option"

definition new_RateLimiter :: "int option \<Rightarrow> int option \<Rightarrow> RateLimiter" where
  "new_RateLimiter w m =
     \<lparr> windowMs = (case w of None \<Rightarrow> 60000 | Some n \<Rightarrow> if n = 0 then 60000 else n),
       maxRequests = (case m of None \<Rightarrow> 100 | Some n \<Rightarrow> if n = 0 then 100 else n),
       store = Map.empty \<rparr>"

text \<open>The loop \<open>while (requests.length > 0 && requests[0] < windowStart) requests.shift()\<close>.\<close>

fun shift_old :: "int \<Rightarrow> int list \<Rightarrow> int list" where
  "shift_old windowStart [] = []"
| "shift_old windowStart (x # xs) =
     (if x < windowStart then shift_old windowStart xs else x # xs)"

text \<open>
  \<open>check(key)\<close> at the time \<open>now\<close>. The array is shifted in place, so the store holds
  the shortened list also when the request is denied.
\<close>

definition check :: "RateLimiter \<Rightarrow> jsval \<Rightarrow> int \<Rightarrow> bool \<times> RateLimiter" where
  "check rl key now =
     (let windowStart = now - windowMs rl;
          requests = shift_old windowStart (case store rl key of None \<Rightarrow> [] | Some r \<Rightarrow> r)
      in if int (length requests) \<ge> maxRequests rl
         then (False, rl\<lparr>store := (store rl)(key \<mapsto> requests)\<rparr>)
         else (True, rl\<lparr>store := (store rl)(key \<mapsto> requests @ [now])\<rparr>))"

definition remaining :: "RateLimiter \<Rightarrow> jsval \<Rightarrow> int \<Rightarrow> int \<times> RateLimiter" where
  "remaining rl key now =
     (let windowStart = now - windowMs rl in
      case store rl key of
        None \<Rightarrow> (maxRequests rl, rl)
      | Some r \<Rightarrow>
          (let requests = shift_old windowStart r
           in (max 0 (maxRequests rl - int (length requests)),
               rl\<lparr>store := (store rl)(key \<mapsto> requests)\<rparr>)))"

definition cleanup :: "RateLimiter \<Rightarrow> int \<Rightarrow> RateLimiter" where
  "cleanup rl now =
     (let windowStart = now - windowMs rl in
      rl\<lparr>store := (\<lambda>key. case store rl key of
                None \<Rightarrow> None
              | Some r \<Rightarrow>
                  (let requests = shift_old windowStart r
                   in if length requests = 0 then None else Some requests))\<rparr>)"

text \<open>The two limiters of the module, and the request as the middleware reads it.\<close>

record limiters =
  ipRateLimiter :: RateLimiter
  apiKeyRateLimiter :: RateLimiter

definition initial_limiters :: limiters where
  "initial_limiters =
     \<lparr> ipRateLimiter = new_RateLimiter (Some 60000) (Some 100),
       apiKeyRateLimiter = new_RateLimiter (Some 60000) (Some 1000) \<rparr>"

record client =
  x_api_key :: jsval
  req_ip :: jsval
  remoteAddress :: jsval

text \<open>
  The middleware ends a denied request with status 429 and a JSON body; on an admitted
  request it sets the three headers (the reset header is the ISO-8601 text of an instant,
  kept here as the instant) and calls \<open>next()\<close>.
\<close>

record rate_headers =
  x_ratelimit_limit :: int
  x_ratelimit_remaining :: int
  x_ratelimit_reset :: int

datatype admission = Denied nat jsval | Admitted rate_headers

definition identifier_of :: "client \<Rightarrow> jsval" where
  "identifier_of req = js_or (x_api_key req) (js_or (req_ip req) (remoteAddress req))"

definition rateLimitMiddleware ::
  "limiters \<Rightarrow> client \<Rightarrow> int \<Rightarrow> int \<Rightarrow> int \<Rightarrow> admission \<times> limiters" where
  "rateLimitMiddleware ls req now1 now2 now3 =
     (let identifier = identifier_of req;
          api = truthy (x_api_key req);
          limiter = (if api then apiKeyRateLimiter ls else ipRateLimiter ls);
          put = (\<lambda>rl. if api then ls\<lparr>apiKeyRateLimiter := rl\<rparr> else ls\<lparr>ipRateLimiter := rl\<rparr>);
          (ok, limiter1) = check limiter identifier now1
      in if \<not> ok
         then (Denied 429 (JObj [(''error'', JStr ''Rate limit exceeded''),
                                 (''retryAfter'', JNum 60), (''remaining'', JNum 0)]),
               put limiter1)
         else (let (left, limiter2) = remaining limiter1 identifier now2
               in (Admitted \<lparr> x_ratelimit_limit = maxRequests limiter2,
                               x_ratelimit_remaining = left,
                               x_ratelimit_reset = now3 + windowMs limiter2 \<rparr>,
                   put limiter2)))"

text \<open>
  What happens to the limiters over time: requests pass the middleware, and every five
  minutes the timer sweeps both limiters. Each carries the clock readings it makes.
\<close>

datatype gateway_event = Request client int int int | Sweep int int

fun event_times :: "gateway_event \<Rightarrow> int list" where
  "event_times (Request req now1 now2 now3) = [now1, now2, now3]"
| "event_times (Sweep now1 now2) = [now1, now2]"

text \<open>The run of a list of events; the log keeps every request that was admitted.\<close>

fun run_gateway ::
  "limiters \<Rightarrow> gateway_event list \<Rightarrow> limiters \<times> (client \<times> int) list" where
  "run_gateway ls [] = (ls, [])"
| "run_gateway ls (Request req now1 now2 now3 # evs) =
     (case rateLimitMiddleware ls req now1 now2 now3 of
        (Denied status body, ls1) \<Rightarrow> run_gateway ls1 evs
      | (Admitted headers, ls1) \<Rightarrow>
          (let (ls2, log) = run_gateway ls1 evs in (ls2, (req, now1) # log)))"
| "run_gateway ls (Sweep now1 now2 # evs) =
     run_gateway
       (ls\<lparr>ipRateLimiter := cleanup (ipRateLimiter ls) now1,
           apiKeyRateLimiter := cleanup (apiKeyRateLimiter ls) now2\<rparr>) evs"

definition admitted_in ::
  "bool \<Rightarrow> jsval \<Rightarrow> int \<Rightarrow> int \<Rightarrow> (client \<times> int) list \<Rightarrow> (client \<times> int) list" where
  "admitted_in api k a b log =
     filter (\<lambda>(req, t). truthy (x_api_key req) = api \<and> identifier_of req = k \<and> a \<le> t \<and> t \<le> b) log"

subsection \<open>The history of a limiter\<close>

text \<open>
  For the proof of the sliding-window bound: the list a limiter stores for a key, the
  times at which one tier admitted a key according to a log, and the invariant that ties
  the two. The stored list is the admitted history of the key without a front part that
  lies before the window of the latest clock reading \<open>T\<close>, and no closed interval as long
  as the window holds more admitted times than the maximum.
\<close>

definition times_of :: "RateLimiter \<Rightarrow> jsval \<Rightarrow> int list" where
  "times_of rl k = (case store rl k of None \<Rightarrow> [] | Some r \<Rightarrow> r)"

definition hist_of :: "bool \<Rightarrow> (client \<times> int) list \<Rightarrow> jsval \<Rightarrow> int list" where
  "hist_of api log k =
     map snd (filter (\<lambda>(req, t). truthy (x_api_key req) = api \<and> identifier_of req = k) log)"

definition within :: "int \<Rightarrow> int \<Rightarrow> int list \<Rightarrow> int list" where
  "within a b ts = filter (\<lambda>t. a \<le> t \<and> t \<le> b) ts"

definition sliding_ok :: "RateLimiter \<Rightarrow> (jsval \<Rightarrow> int list) \<Rightarrow> int \<Rightarrow> bool" where
  "sliding_ok rl hist T =
     (\<forall>k. (\<exists>D. hist k = D @ times_of rl k \<and> (\<forall>d \<in> set D. d < T - windowMs rl))
        \<and> (\<forall>a. int (length (within a (a + windowMs rl) (hist k))) \<le> maxRequests rl))"

definition gateway_ok :: "limiters \<Rightarrow> (client \<times> int) list \<Rightarrow> int \<Rightarrow> bool" where
  "gateway_ok ls log T =
     (sliding_ok (ipRateLimiter ls) (hist_of False log) T
      \<and> sliding_ok (apiKeyRateLimiter ls) (hist_of True log) T
      \<and> windowMs (ipRateLimiter ls) = 60000 \<and> maxRequests (ipRateLimiter ls) = 100
      \<and> windowMs (apiKeyRateLimiter ls) = 60000 \<and> maxRequests (apiKeyRateLimiter ls) = 1000)"

definition rate_limit_body :: jsval where
  "rate_limit_body =
     JObj [(''error'', JStr ''Rate limit exceeded''), (''retryAfter'', JNum 60),
           (''remaining'', JNum 0)]"

subsection \<open>Sample traffic\<close>

text \<open>
  A client without an API key, three events on a clock that moves forward, and a limiter
  that has no room left for the key \<open>10.0.0.1\<close> at the time 60400.
\<close>

definition demo_client :: client where
  "demo_client = \<lparr> x_api_key = JUndefined, req_ip = JStr ''10.0.0.1'', remoteAddress = JUndefined \<rparr>"

definition demo_events :: "gateway_event list" where
  "demo_events =
     [Request demo_client 1000 1000 1001, Sweep 300000 300000,
      Request demo_client 300001 300002 300003]"

definition full_limiter :: RateLimiter where
  "full_limiter =
     \<lparr> windowMs = 60000, maxRequests = 2, store = [JStr ''10.0.0.1'' \<mapsto> [10, 500, 900]] \<rparr>"

section \<open>middleware/validation.js\<close>

text \<open>
  The request body as the routes read it: a field the body does not have is
  \<open>JUndefined\<close>. Field \<open>x\<close> of the source is \<open>b_x\<close>.
\<close>

record body =
  b_node :: jsval
  b_data :: jsval
  b_name :: jsval
  b_params :: jsval
  b_useEnvelope :: jsval

text \<open>
  \<open>sanitizeString\<close>: NUL characters removed, white space trimmed at both ends, cut to
  \<open>maxLength\<close> code units. \<open>String.prototype.trim\<close> strips the white space and the line
  terminators of the language; those below 0x100 are TAB, LF, VT, FF, CR, SP and NBSP.
\<close>

definition is_space :: "char \<Rightarrow> bool" where
  "is_space c =
     (c \<in> set [CHR 0x09, CHR 0x0A, CHR 0x0B, CHR 0x0C, CHR 0x0D, CHR 0x20, CHR 0xA0])"

definition trim :: "string \<Rightarrow> string" where
  "trim s = rev (dropWhile is_space (rev (dropWhile is_space s)))"

definition sanitizeString :: "jsval \<Rightarrow> nat \<Rightarrow> string" where
  "sanitizeString input maxLength =
     (case input of
        JStr s \<Rightarrow>
          (let sanitized = trim (filter (\<lambda>c. c \<noteq> CHR 0x00) s)
           in if length sanitized > maxLength then take maxLength sanitized else sanitized)
      | _ \<Rightarrow> [])"

text \<open>
  \<open>isValidENSName\<close>: the regular expression \<open>/^[a-z0-9-]+\.eth$/i\<close> ignores case, also in
  the suffix.
\<close>

definition lower :: "char \<Rightarrow> char" where
  "lower c = (if 65 \<le> (of_char c :: nat) \<and> (of_char c :: nat) \<le> 90
              then char_of ((of_char c :: nat) + 32) else c)"

definition ens_char :: "char \<Rightarrow> bool" where
  "ens_char c =
     (let k = (of_char (lower c) :: nat) in (97 \<le> k \<and> k \<le> 122) \<or> (48 \<le> k \<and> k \<le> 57) \<or> k = 45)"

definition ens_regex :: "string \<Rightarrow> bool" where
  "ens_regex s =
     (length s > 4 \<and> map lower (drop (length s - 4) s) = ''.eth''
      \<and> list_all ens_char (take (length s - 4) s))"

definition isValidENSName :: "jsval \<Rightarrow> bool" where
  "isValidENSName name =
     (case name of JStr s \<Rightarrow> s \<noteq> [] \<and> ens_regex s \<and> length s \<le> 255 | _ \<Rightarrow> False)"

text \<open>
  \<open>isValidNode\<close>: \<open>ethers.namehash\<close> is not part of the repository; whether it accepts a
  name (returns instead of throwing) is the parameter \<open>namehash_ok\<close>.
\<close>

definition isValidNode :: "(string \<Rightarrow> bool) \<Rightarrow> jsval \<Rightarrow> bool" where
  "isValidNode namehash_ok node =
     (if \<not> truthy node then False
      else case node of
        JStr s \<Rightarrow> if take 2 s = ''0x'' then length s = 66 else namehash_ok s
      | _ \<Rightarrow> False)"

definition sanitize_value :: "jsval \<Rightarrow> jsval" where
  "sanitize_value v = (if typeof v = ''string'' then JStr (sanitizeString v 1000) else v)"

definition sanitize_params :: "jsval \<Rightarrow> jsval" where
  "sanitize_params ps =
     (case ps of
        JObj kvs \<Rightarrow> JObj (map (\<lambda>(key, v). (key, sanitize_value v)) kvs)
      | JArr vs \<Rightarrow> JArr (map sanitize_value vs)
      | _ \<Rightarrow> ps)"

text \<open>
  The four rules of \<open>validateRequest\<close>, in the order of the source; each pushes its
  message. The name and the parameters are replaced by their sanitized forms.
\<close>

definition node_errors :: "(string \<Rightarrow> bool) \<Rightarrow> body \<Rightarrow> string list" where
  "node_errors namehash_ok b =
     (if truthy (b_node b) \<and> \<not> isValidNode namehash_ok (b_node b)
      then [''Invalid node parameter''] else [])"

definition name_errors :: "body \<Rightarrow> string list" where
  "name_errors b =
     (if truthy (b_name b) \<and> \<not> isValidENSName (JStr (sanitizeString (b_name b) 255))
      then [''Invalid ENS name''] else [])"

definition dataSize :: "body \<Rightarrow> nat" where
  "dataSize b = (case json_text (b_data b) of None \<Rightarrow> 0 | Some s \<Rightarrow> length s)"

definition data_errors :: "body \<Rightarrow> string list" where
  "data_errors b =
     (if truthy (b_data b) \<and> dataSize b > 100000
      then [''Request data too large (max 100KB)''] else [])"

definition params_errors :: "body \<Rightarrow> string list" where
  "params_errors b =
     (if truthy (b_params b) \<and> typeof (b_params b) \<noteq> ''object''
      then [''Params must be an object''] else [])"

definition validation_errors :: "(string \<Rightarrow> bool) \<Rightarrow> body \<Rightarrow> string list" where
  "validation_errors namehash_ok b =
     node_errors namehash_ok b @ name_errors b @ data_errors b @ params_errors b"

definition sanitized_body :: "body \<Rightarrow> body" where
  "sanitized_body b =
     b\<lparr> b_name := (if truthy (b_name b) then JStr (sanitizeString (b_name b) 255) else b_name b),
        b_params := (if truthy (b_params b) \<and> typeof (b_params b) = ''object''
                     then sanitize_params (b_params b) else b_params b) \<rparr>"

datatype 'a middleware = Respond nat jsval | Next 'a

definition validateRequest :: "(string \<Rightarrow> bool) \<Rightarrow> body \<Rightarrow> body middleware" where
  "validateRequest namehash_ok b =
     (let errors = validation_errors namehash_ok b in
      if length errors > 0
      then Respond 400 (JObj [(''error'', JStr ''Validation failed''),
                              (''details'', JArr (map JStr errors))])
      else Next (sanitized_body b))"

section \<open>monitoring/metrics.js\<close>

text \<open>The counters \<open>recordRequest\<close> and \<open>recordSignatureGenerated\<close> touch.\<close>

record method_stats =
  ms_total :: nat
  ms_success :: nat
  ms_errors :: nat

record metrics =
  requests_total :: nat
  requests_success :: nat
  requests_errors :: nat
  byMethod :: "string \<Rightarrow> method_stats option"
  latency_sum :: int
  latency_count :: nat
  distribution :: "string \<Rightarrow> nat"
  signatures_generated :: nat

definition buckets :: "int list" where
  "buckets = [10, 50, 100, 500, 1000, 5000]"

definition new_Metrics :: metrics where
  "new_Metrics =
     \<lparr> requests_total = 0, requests_success = 0, requests_errors = 0, byMethod = Map.empty,
       latency_sum = 0, latency_count = 0, distribution = (\<lambda>label. 0),
       signatures_generated = 0 \<rparr>"

definition bump :: "(string \<Rightarrow> nat) \<Rightarrow> string \<Rightarrow> string \<Rightarrow> nat" where
  "bump dist label = dist(label := dist label + 1)"

text \<open>
  \<open>byMethod\<close> is an object literal: for a method name that it does not own and that names
  a member of \<open>Object.prototype\<close> the test \<open>!byMethod[method]\<close> finds that member, no entry
  is created, and the increments land on the member and not in \<open>byMethod\<close>. Which names
  the prototype has is the parameter \<open>on_prototype\<close>.
\<close>

definition bump_stats :: "method_stats \<Rightarrow> bool \<Rightarrow> method_stats" where
  "bump_stats old success =
     old\<lparr> ms_total := ms_total old + 1,
          ms_success := ms_success old + (if success then 1 else 0),
          ms_errors := ms_errors old + (if success then 0 else 1) \<rparr>"

definition recordRequest ::
  "(string \<Rightarrow> bool) \<Rightarrow> metrics \<Rightarrow> jsval \<Rightarrow> bool \<Rightarrow> int \<Rightarrow> metrics" where
  "recordRequest on_prototype M meth success latency =
     (let key = js_toString meth;
          methods =
            (case byMethod M key of
               Some own \<Rightarrow> (byMethod M)(key \<mapsto> bump_stats own success)
             | None \<Rightarrow>
                 if on_prototype key then byMethod M
                 else (byMethod M)(key \<mapsto>
                   bump_stats \<lparr> ms_total = 0, ms_success = 0, ms_errors = 0 \<rparr> success));
          dist = foldl (\<lambda>d bucket. if latency \<le> bucket then bump d (''le_'' @ number_text bucket) else d)
                   (distribution M) buckets
      in M\<lparr> requests_total := requests_total M + 1,
            requests_success := requests_success M + (if success then 1 else 0),
            requests_errors := requests_errors M + (if success then 0 else 1),
            byMethod := methods,
            latency_sum := latency_sum M + latency,
            latency_count := latency_count M + 1,
            distribution := bump dist ''le_inf'' \<rparr>)"

definition recordSignatureGenerated :: "metrics \<Rightarrow> metrics" where
  "recordSignatureGenerated M = M\<lparr> signatures_generated := signatures_generated M + 1 \<rparr>"

section \<open>compute/index.js\<close>

text \<open>
  What lies outside the repository's own logic is a parameter of the model: the wallet's
  primitives, the ABI coder, \<open>JSON.parse\<close>, \<open>ethers.toUtf8String\<close> and \<open>ethers.namehash\<close>
  (each \<open>None\<close>, or false, where the real one throws), and the three compute functions, which
  the specification treats as opaque producers of a result. \<open>computeFunctions\<close> is an object
  literal, so a key it does not own is looked up on \<open>Object.prototype\<close>; \<open>inherited\<close> says
  what a call of such a member gives, and is \<open>None\<close> for a key the prototype does not have.
\<close>

datatype abi_arg = ArgJs jsval | ArgBytes string

record runtime =
  wallet :: crypto
  abi_decode :: "string list \<Rightarrow> string \<Rightarrow> (string \<times> string) option"
  abi_encode :: "string list \<Rightarrow> abi_arg list \<Rightarrow> string option"
  json_parse :: "string \<Rightarrow> jsval option"
  utf8_decode :: "string \<Rightarrow> string option"
  namehash_ok :: "string \<Rightarrow> bool"
  pricefeed :: "jsval \<Rightarrow> js_error + jsval"
  daovotes :: "jsval \<Rightarrow> js_error + jsval"
  nftfloor :: "jsval \<Rightarrow> js_error + jsval"
  inherited :: "string \<Rightarrow> (jsval \<Rightarrow> js_error + jsval) option"

definition computeFunctions :: "runtime \<Rightarrow> string \<Rightarrow> (jsval \<Rightarrow> js_error + jsval) option" where
  "computeFunctions R key =
     (if key = ''pricefeed'' then Some (pricefeed R)
      else if key = ''daovotes'' then Some (daovotes R)
      else if key = ''nftfloor'' then Some (nftfloor R)
      else inherited R key)"

definition executeCompute :: "runtime \<Rightarrow> jsval \<Rightarrow> jsval \<Rightarrow> js_error + jsval" where
  "executeCompute R functionName params =
     (case computeFunctions R (js_toString functionName) of
        None \<Rightarrow> Inl (Error (''Unknown compute function: '' @ js_toString functionName))
      | Some computeFn \<Rightarrow> computeFn (default_to params (JObj [])))"

section \<open>The gateway server\<close>

text \<open>
  The handler of \<open>POST /lookup\<close>. What it does besides answering is kept in a list of the
  calls it made, in order: the decoders, the warnings on the console, the dispatcher, the
  signer.
\<close>

datatype call =
    AbiDecode string
  | JsonParse string
  | Warn string
  | Compute jsval jsval
  | SignEnvelope
  | SignLegacy

definition is_decode :: "call \<Rightarrow> bool" where
  "is_decode c = (case c of AbiDecode d \<Rightarrow> True | JsonParse d \<Rightarrow> True | _ \<Rightarrow> False)"

definition is_dispatch :: "call \<Rightarrow> bool" where
  "is_dispatch c = (case c of Compute f p \<Rightarrow> True | _ \<Rightarrow> False)"

definition is_sign :: "call \<Rightarrow> bool" where
  "is_sign c = (case c of SignEnvelope \<Rightarrow> True | SignLegacy \<Rightarrow> True | _ \<Rightarrow> False)"

definition is_warning :: "call \<Rightarrow> bool" where
  "is_warning c = (case c of Warn m \<Rightarrow> True | _ \<Rightarrow> False)"

subsection \<open>Decoding the call data\<close>

text \<open>
  \<open>ethers.toUtf8String(paramsBytes)\<close> on the hex string the ABI coder returned, then
  \<open>JSON.parse\<close>; the inner \<open>try\<close> of the source catches both.
\<close>

definition parse_params_bytes :: "runtime \<Rightarrow> string \<Rightarrow> jsval option" where
  "parse_params_bytes R paramsBytes =
     (case getBytes (Hex paramsBytes) of None \<Rightarrow> None | Some bs \<Rightarrow>
      case utf8_decode R bs of None \<Rightarrow> None | Some txt \<Rightarrow> json_parse R txt)"

text \<open>The guard \<open>data && (typeof data === 'string' ? data.length > 0 : Object.keys(data).length > 0)\<close>.\<close>

definition has_call_data :: "jsval \<Rightarrow> bool" where
  "has_call_data d =
     (truthy d \<and>
      (case d of JStr s \<Rightarrow> length s > 0 | JObj kvs \<Rightarrow> length kvs > 0
       | JArr vs \<Rightarrow> length vs > 0 | _ \<Rightarrow> False))"

definition default_method :: jsval where
  "default_method = JStr ''pricefeed''"

text \<open>
  The three shapes, in the order of the source. The result is the method name, the
  parameters and the calls made. An exception in the outer \<open>try\<close> leaves both variables as
  they were; the inner \<open>try\<close> around the parameters' JSON is entered after the method name
  has been assigned.
\<close>

definition decode_hex :: "runtime \<Rightarrow> string \<Rightarrow> jsval \<times> jsval \<times> call list" where
  "decode_hex R d =
     (case abi_decode R [''string'', ''bytes''] d of
        None \<Rightarrow> (default_method, JObj [],
                 [AbiDecode d, Warn ''Could not decode call data, using defaults:''])
      | Some (decoded0, paramsBytes) \<Rightarrow>
          (let functionName = js_or (JStr decoded0) default_method in
           if truthy (JStr paramsBytes) \<and> length paramsBytes > 0
           then (case parse_params_bytes R paramsBytes of
                   None \<Rightarrow> (functionName, JObj [],
                            [AbiDecode d, JsonParse paramsBytes,
                             Warn ''Could not parse params JSON:''])
                 | Some ps \<Rightarrow> (functionName, ps, [AbiDecode d, JsonParse paramsBytes]))
           else (functionName, JObj [], [AbiDecode d])))"

definition decode_object :: "jsval \<Rightarrow> (jsval \<times> jsval) option" where
  "decode_object parsed =
     (case get_prop parsed ''function'' of Inl err \<Rightarrow> None | Inr f \<Rightarrow>
      case get_prop parsed ''params'' of Inl err \<Rightarrow> None | Inr ps \<Rightarrow>
        Some (js_or f default_method, js_or ps (JObj [])))"

definition decode_json :: "runtime \<Rightarrow> string \<Rightarrow> jsval \<times> jsval \<times> call list" where
  "decode_json R d =
     (case json_parse R d of
        None \<Rightarrow> (default_method, JObj [],
                 [JsonParse d, Warn ''Could not decode call data, using defaults:''])
      | Some parsed \<Rightarrow>
          (case decode_object parsed of
             None \<Rightarrow> (default_method, JObj [],
                      [JsonParse d, Warn ''Could not decode call data, using defaults:''])
           | Some (functionName, ps) \<Rightarrow> (functionName, ps, [JsonParse d])))"

definition decodeCallData :: "runtime \<Rightarrow> jsval \<Rightarrow> jsval \<times> jsval \<times> call list" where
  "decodeCallData R d =
     (if \<not> has_call_data d then (default_method, JObj [], [])
      else case d of
        JStr s \<Rightarrow> if take 2 s = ''0x'' then decode_hex R s else decode_json R s
      | _ \<Rightarrow>
          (if typeof d = ''object''
           then (case decode_object d of
                   None \<Rightarrow> (default_method, JObj [],
                            [Warn ''Could not decode call data, using defaults:''])
                 | Some (functionName, ps) \<Rightarrow> (functionName, ps, []))
           else (default_method, JObj [], [])))"

subsection \<open>The route\<close>

text \<open>
  The four readings of \<open>Date.now()\<close> a successful request makes: at entry, for the nonce,
  for the timestamp, and when the latency is taken.
\<close>

record clock =
  t_start :: int
  t_nonce :: int
  t_stamp :: int
  t_end :: int

text \<open>
  The handler either sends a response (status and JSON body), or its promise is rejected
  with an exception that nothing in the handler catches.
\<close>

datatype outcome = Responded nat jsval | Rejected js_error

record lookup_result =
  answer :: outcome
  metrics_after :: metrics
  calls :: "call list"

definition envelope_json :: "envelope \<Rightarrow> jsval" where
  "envelope_json e =
     JObj [(''name'', e_name e), (''method'', e_method e), (''params'', e_params e),
           (''result'', e_result e), (''cursor'', e_cursor e),
           (''prev_digest'', e_prev_digest e), (''meta'', e_meta e),
           (''cache_ttl'', e_cache_ttl e), (''digest'', e_digest e),
           (''signature'', e_signature e)]"

definition ZeroHash :: string where
  "ZeroHash = hexlify (replicate 32 (CHR 0x00))"

definition envelope_tuple_type :: string where
  "envelope_tuple_type =
     ''tuple(string,string,string,string,string,bytes32,string,uint256,bytes32,bytes)''"

text \<open>The values handed to the ABI coder for the envelope, in wire order.\<close>

definition envelope_tuple :: "envelope \<Rightarrow> jsval list" where
  "envelope_tuple e =
     [e_name e, e_method e, e_params e, e_result e,
      js_or (e_cursor e) (JStr []),
      js_or (e_prev_digest e) (JStr ZeroHash),
      e_meta e, e_cache_ttl e, e_digest e, e_signature e]"

text \<open>
  The \<open>catch\<close> block of the handler. Its second statement evaluates \<open>functionName\<close>, which
  is declared with \<open>let\<close> inside the \<open>try\<close> block and so is not in scope here, nor is it a
  name of the module or a global: the evaluation throws a ReferenceError before
  \<open>recordRequest\<close> is called and before any response is sent.
\<close>

definition lookup_catch :: "metrics \<Rightarrow> call list \<Rightarrow> js_error \<Rightarrow> lookup_result" where
  "lookup_catch M cs err =
     \<lparr> answer = Rejected (ReferenceError ''functionName is not defined''),
       metrics_after = M, calls = cs \<rparr>"

definition lookup_meta :: "clock \<Rightarrow> jsval" where
  "lookup_meta clk =
     JObj [(''provider'', JStr ''ens-compute-gateway''), (''version'', JStr ''1.0.0''),
           (''nonce'', JNum (t_nonce clk)), (''timestamp'', JNum (t_stamp clk div 1000))]"

text \<open>The argument of \<open>createEnvelope\<close>; reading a property of \<open>params\<close> throws when it is null.\<close>

definition lookup_envelope_params ::
  "clock \<Rightarrow> body \<Rightarrow> jsval \<Rightarrow> jsval \<Rightarrow> jsval \<Rightarrow> js_error + envelope_params" where
  "lookup_envelope_params clk b functionName params result =
     (case get_prop params ''cursor'' of Inl err \<Rightarrow> Inl err | Inr cursor \<Rightarrow>
      case get_prop params ''prevDigest'' of Inl err \<Rightarrow> Inl err | Inr prevDigest \<Rightarrow>
      case get_prop params ''cacheTtl'' of Inl err \<Rightarrow> Inl err | Inr cacheTtl \<Rightarrow>
        Inr \<lparr> p_name = js_or (b_name b) (JStr ''unknown.eth''),
              p_method = functionName,
              p_params = params,
              p_result = result,
              p_cursor = js_or cursor JNull,
              p_prevDigest = js_or prevDigest JNull,
              p_meta = lookup_meta clk,
              p_cacheTtl = js_or cacheTtl (JNum 30) \<rparr>)"

text \<open>
  \<open>byMethod\<close> and \<open>computeFunctions\<close> are both object literals, so they inherit the same
  members.
\<close>

definition on_prototype :: "runtime \<Rightarrow> string \<Rightarrow> bool" where
  "on_prototype R key = (case inherited R key of None \<Rightarrow> False | Some member \<Rightarrow> True)"

definition respond_ok ::
  "runtime \<Rightarrow> metrics \<Rightarrow> clock \<Rightarrow> jsval \<Rightarrow> call list \<Rightarrow> jsval \<Rightarrow> lookup_result" where
  "respond_ok R M clk functionName cs payload =
     \<lparr> answer = Responded 200 payload,
       metrics_after =
         recordSignatureGenerated
           (recordRequest (on_prototype R) M functionName True (t_end clk - t_start clk)),
       calls = cs \<rparr>"

definition envelope_path ::
  "runtime \<Rightarrow> metrics \<Rightarrow> clock \<Rightarrow> body \<Rightarrow> jsval \<Rightarrow> jsval \<Rightarrow> jsval \<Rightarrow> call list
     \<Rightarrow> lookup_result" where
  "envelope_path R M clk b functionName params result cs =
     (case lookup_envelope_params clk b functionName params result of
        Inl err \<Rightarrow> lookup_catch M cs err
      | Inr p \<Rightarrow>
          (case createEnvelope (wallet R) p of
             Inl err \<Rightarrow> lookup_catch M (cs @ [SignEnvelope]) err
           | Inr envelope \<Rightarrow>
               (case abi_encode R [envelope_tuple_type] [ArgJs (JArr (envelope_tuple envelope))] of
                  None \<Rightarrow> lookup_catch M (cs @ [SignEnvelope]) (Error ''invalid value'')
                | Some response \<Rightarrow>
                    respond_ok R M clk functionName (cs @ [SignEnvelope])
                      (JObj [(''data'', JStr response),
                             (''envelope'', envelope_json envelope)]))))"

definition legacy_path ::
  "runtime \<Rightarrow> metrics \<Rightarrow> clock \<Rightarrow> jsval \<Rightarrow> jsval \<Rightarrow> call list \<Rightarrow> lookup_result" where
  "legacy_path R M clk functionName result cs =
     (case signResult (wallet R) result of
        Inl err \<Rightarrow> lookup_catch M (cs @ [SignLegacy]) err
      | Inr signature \<Rightarrow>
          (case JSON_stringify result of
             JStr resultJson \<Rightarrow>
               (case abi_encode R [''bytes'', ''bytes'']
                       [ArgBytes (toUtf8Bytes resultJson), ArgJs (JStr signature)] of
                  None \<Rightarrow> lookup_catch M (cs @ [SignLegacy]) (Error ''invalid value'')
                | Some response \<Rightarrow>
                    respond_ok R M clk functionName (cs @ [SignLegacy])
                      (JObj [(''data'', JStr response)]))
           | _ \<Rightarrow> lookup_catch M (cs @ [SignLegacy]) (TypeError ''invalid string value'')))"

definition lookup_handler :: "runtime \<Rightarrow> metrics \<Rightarrow> clock \<Rightarrow> body \<Rightarrow> lookup_result" where
  "lookup_handler R M clk b =
     (if \<not> truthy (b_node b)
      then \<lparr> answer = Responded 400 (JObj [(''error'', JStr ''Missing node parameter'')]),
             metrics_after = M, calls = [] \<rparr>
      else
        (let (functionName, params, cs) = decodeCallData R (b_data b) in
         case executeCompute R functionName params of
           Inl err \<Rightarrow> lookup_catch M (cs @ [Compute functionName params]) err
         | Inr result \<Rightarrow>
             (let useEnvelope = (b_useEnvelope b \<noteq> JBool False) in
              if useEnvelope
              then envelope_path R M clk b functionName params result
                     (cs @ [Compute functionName params])
              else legacy_path R M clk functionName result
                     (cs @ [Compute functionName params]))))"

text \<open>\<open>app.post('/lookup', validateRequest, handler)\<close>: the validator, then the handler.\<close>

definition lookup_route :: "runtime \<Rightarrow> metrics \<Rightarrow> clock \<Rightarrow> body \<Rightarrow> lookup_result" where
  "lookup_route R M clk b =
     (case validateRequest (namehash_ok R) b of
        Respond status payload \<Rightarrow>
          \<lparr> answer = Responded status payload, metrics_after = M, calls = [] \<rparr>
      | Next b' \<Rightarrow> lookup_handler R M clk b')"

subsection \<open>The application\<close>

text \<open>
  The middleware a \<open>POST /lookup\<close> request passes, in the order of its registration:
  \<open>cors()\<close>, which sets headers only, \<open>express.json({ limit: '100kb' })\<close>,
  \<open>rateLimitMiddleware\<close>, then the route. The body parser is the framework's, so a request
  carries what the parser meets: the number of bytes of the body it reads, and the object
  it leaves in \<open>req.body\<close> when the text parses, \<open>None\<close> for a text that is not JSON. The
  parser refuses a body of more than 100 \<times> 1024 bytes with the status 413 and a malformed
  one with 400; the refusal goes to the error handler of the framework and no later
  middleware runs.
\<close>

record request =
  sender :: client
  body_bytes :: nat
  body_json :: "body option"

definition body_limit :: nat where
  "body_limit = 100 * 1024"

datatype parse_result = Refused nat | Parsed body

definition express_json :: "nat \<Rightarrow> request \<Rightarrow> parse_result" where
  "express_json limit req =
     (if body_bytes req > limit then Refused 413
      else case body_json req of None \<Rightarrow> Refused 400 | Some b \<Rightarrow> Parsed b)"

text \<open>
  What becomes of a request: the parser's refusal, the limiter's denial, or the headers of
  the limiter with the result of the route. The clock is read three times by the limiter
  and then by the route.
\<close>

datatype reply =
    ParserError nat
  | RateLimited nat jsval
  | Routed rate_headers lookup_result

definition lookup_pipeline ::
  "runtime \<Rightarrow> limiters \<Rightarrow> metrics \<Rightarrow> request \<Rightarrow> int \<Rightarrow> int \<Rightarrow> int \<Rightarrow> clock
     \<Rightarrow> reply \<times> limiters" where
  "lookup_pipeline R ls M req now1 now2 now3 clk =
     (case express_json body_limit req of
        Refused status \<Rightarrow> (ParserError status, ls)
      | Parsed b \<Rightarrow>
          (case rateLimitMiddleware ls (sender req) now1 now2 now3 of
             (Denied status payload, ls1) \<Rightarrow> (RateLimited status payload, ls1)
           | (Admitted headers, ls1) \<Rightarrow> (Routed headers (lookup_route R M clk b), ls1)))"

text \<open>The calls a reply stands for: a request that does not reach the route makes none.\<close>

definition calls_made :: "reply \<Rightarrow> call list" where
  "calls_made r = (case r of Routed headers res \<Rightarrow> calls res | _ \<Rightarrow> [])"

text \<open>
  The size of a data field in the words of the specification: the number of bytes of its
  serialisation, which is the UTF-8 encoding of the JSON text.
\<close>

definition serialized_bytes :: "jsval \<Rightarrow> nat" where
  "serialized_bytes v = (case json_text v of None \<Rightarrow> 0 | Some s \<Rightarrow> length (toUtf8Bytes s))"

subsection \<open>A stand-in runtime and sample requests\<close>

text \<open>
  For running the route on concrete requests: an ABI coder that knows three payloads, a
  UTF-8 decoder that knows ASCII text, a JSON parser that knows the empty object, a price
  feed that returns a fixed result, and no inherited members. The node is 32 zero bytes in
  hex.
\<close>

definition stub_result :: jsval where
  "stub_result = JObj [(''success'', JBool True), (''type'', JStr ''pricefeed'')]"

definition stub_runtime :: runtime where
  "stub_runtime =
     \<lparr> wallet = stub_crypto,
       abi_decode = (\<lambda>types d.
          if d = ''0x01'' then Some (''pricefeed'', hexlify ''{}'')
          else if d = ''0x02'' then Some (''nosuch'', hexlify ''{}'')
          else if d = ''0x03'' then Some (''daovotes'', hexlify ''not json'')
          else None),
       abi_encode = (\<lambda>types args. if length types = 1 then Some ''0xe1'' else Some ''0x1e''),
       json_parse = (\<lambda>txt. if txt = ''{}'' then Some (JObj []) else None),
       utf8_decode = (\<lambda>bs.
          if list_all (\<lambda>c. (of_char c :: nat) < 128) bs then Some bs else None),
       namehash_ok = (\<lambda>name. True),
       pricefeed = (\<lambda>ps. Inr stub_result),
       daovotes = (\<lambda>ps. Inr stub_result),
       nftfloor = (\<lambda>ps. Inr stub_result),
       inherited = (\<lambda>key. None) \<rparr>"

definition stub_clock :: clock where
  "stub_clock = \<lparr> t_start = 1700000000000, t_nonce = 1700000000001,
                   t_stamp = 1700000000002, t_end = 1700000000007 \<rparr>"

definition zero_node :: jsval where
  "zero_node = JStr (hexlify (replicate 32 (CHR 0x00)))"

definition sample_body :: body where
  "sample_body =
     \<lparr> b_node = zero_node, b_data = JStr [], b_name = JStr ''pricefeed.eth'',
       b_params = JUndefined, b_useEnvelope = JUndefined \<rparr>"

definition bad_name_body :: body where
  "bad_name_body =
     \<lparr> b_node = JUndefined, b_data = JUndefined, b_name = JStr ''bad name!'',
       b_params = JUndefined, b_useEnvelope = JUndefined \<rparr>"

text \<open>
  Four requests of the client \<open>10.0.0.1\<close>, each with the length of its text.
  The first is \<open>{"name":"bad name!"}\<close>. The others have the sample's node and name around
  their data: a string of 110000 letters \<open>a\<close>; an array of 5000 numbers, each written
  \<open>1e20\<close> in the text and \<open>100000000000000000000\<close> by \<open>JSON.stringify\<close>; an array of a
  string of 41000 letters \<open>U+00E9\<close>, two bytes each in UTF-8, and 1000 such numbers.
\<close>

definition bad_name_request :: request where
  "bad_name_request =
     \<lparr> sender = demo_client, body_bytes = 20, body_json = Some bad_name_body \<rparr>"

definition huge_body :: body where
  "huge_body = sample_body\<lparr>b_data := JStr (replicate 110000 (CHR ''a''))\<rparr>"

definition huge_request :: request where
  "huge_request = \<lparr> sender = demo_client, body_bytes = 110110, body_json = Some huge_body \<rparr>"

definition long_body :: body where
  "long_body = sample_body\<lparr>b_data := JArr (replicate 5000 (JNum 100000000000000000000))\<rparr>"

definition long_request :: request where
  "long_request = \<lparr> sender = demo_client, body_bytes = 25109, body_json = Some long_body \<rparr>"

definition wide_body :: body where
  "wide_body =
     sample_body\<lparr>b_data := JArr (JStr (replicate 41000 (CHR 0xE9))
                                     # replicate 1000 (JNum 100000000000000000000))\<rparr>"

definition wide_request :: request where
  "wide_request = \<lparr> sender = demo_client, body_bytes = 87112, body_json = Some wide_body \<rparr>"

text \<open>A hundred requests of the client, one in each millisecond from 1000 to 1099.\<close>

definition burst :: "gateway_event list" where
  "burst = map (\<lambda>t. Request demo_client t t t) (map int [1000 ..< 1100])"

definition nosuch_body :: body where
  "nosuch_body = sample_body\<lparr>b_data := JStr ''0x02''\<rparr>"

definition sample_envelope_params :: envelope_params where
  "sample_envelope_params =
     \<lparr> p_name = JStr ''pricefeed.eth'', p_method = JStr ''pricefeed'', p_params = JObj [],
       p_result = stub_result, p_cursor = JNull, p_prevDigest = JNull,
       p_meta = lookup_meta stub_clock, p_cacheTtl = JNum 30 \<rparr>"

section \<open>Conversions and serialisation\<close>

lemma below_16:
  "(n::nat) < 16 \<Longrightarrow> n \<in> {0, 1, 2, 3, 4, 5, 6, 7, 8, 9, 10, 11, 12, 13, 14, 15}"
  by (simp only: insert_iff empty_iff) arith

lemma hex_val_hex_digit: "n < 16 \<Longrightarrow> hex_val (hex_digit n) = Some n"
  by (drule below_16) (auto simp add: hex_val_def hex_digit_def)

lemma unhex_hex_byte: "unhex (hex_byte c @ rest) = map_option ((#) c) (unhex rest)"
proof -
  have a: "(of_char c :: nat) div 16 < 16"
    by (simp add: less_mult_imp_div_less)
  have b: "(of_char c :: nat) mod 16 < 16" by simp
  have c: "char_of (16 * ((of_char c :: nat) div 16) + of_char c mod 16) = c"
    by simp
  show ?thesis
    using c by (cases "unhex rest") (simp_all add: hex_byte_def hex_val_hex_digit [OF a] hex_val_hex_digit [OF b])
qed

lemma unhex_hexlify: "unhex (concat (map hex_byte bs)) = Some bs"
  by (induction bs) (simp_all add: unhex_hex_byte)

lemma getBytes_hexlify: "getBytes (Hex (hexlify bs)) = Some bs"
  by (simp add: hexlify_def unhex_hexlify)

lemma length_hexlify: "length (hexlify bs) = 2 + 2 * length bs"
  by (induction bs) (simp_all add: hexlify_def hex_byte_def)

lemma toUtf8Bytes_ascii:
  "list_all (\<lambda>c. (of_char c :: nat) < 128) s \<Longrightarrow> toUtf8Bytes s = s"
  by (induction s) (simp_all add: toUtf8Bytes_def utf8_unit_def)

lemma toUtf8Bytes_prefix: "toUtf8Bytes eip191_prefix = eip191_prefix"
  by (rule toUtf8Bytes_ascii) (simp add: eip191_prefix_def)

lemma eip191_hash_hexlify:
  "eip191_hash L (hexlify d) = Inr (hexlify (keccak L (eip191_prefix @ d)))"
  by (simp add: eip191_hash_def getBytes_hexlify ethers_concat_def ethers_keccak256_def
      keccak256_bytes_def toUtf8Bytes_prefix del: getBytes.simps(2))

lemma sign_and_serialise_hexlify:
  "sign_and_serialise L (hexlify h) =
     (let sg = ecsign L h in
      if sig_v sg < 256 then Inr (hexlify (sig_r sg @ sig_s sg @ [char_of (sig_v sg)]))
      else Inl invalid_bytes)"
  by (simp add: sign_and_serialise_def signingKey_sign_def getBytes_hexlify toBeHex1_def
      ethers_concat_def Let_def del: getBytes.simps(2))

lemma json_text_None [simp]: "json_text v = None \<longleftrightarrow> v = JUndefined"
  by (cases v) simp_all

lemma js_or_defined: "d \<noteq> JUndefined \<Longrightarrow> js_or v d \<noteq> JUndefined"
  by (cases v) (simp_all add: js_or_def)

lemma json_text_field: "v \<noteq> JUndefined \<Longrightarrow> json_text v = Some (field_text v)"
  by (cases v) (simp_all add: field_text_def)

lemma canonicalizeJSON_eight:
  assumes "v1 \<noteq> JUndefined" "v2 \<noteq> JUndefined" "v3 \<noteq> JUndefined" "v4 \<noteq> JUndefined"
    "v5 \<noteq> JUndefined" "v6 \<noteq> JUndefined" "v7 \<noteq> JUndefined" "v8 \<noteq> JUndefined"
  shows "canonicalizeJSON
      [(''cache_ttl'', v1), (''cursor'', v2), (''meta'', v3), (''method'', v4),
       (''name'', v5), (''params'', v6), (''prev_digest'', v7), (''result'', v8)] =
     ''{'' @ key_text ''cache_ttl'' @ field_text v1 @ '','' @
     key_text ''cursor'' @ field_text v2 @ '','' @
     key_text ''meta'' @ field_text v3 @ '','' @
     key_text ''method'' @ field_text v4 @ '','' @
     key_text ''name'' @ field_text v5 @ '','' @
     key_text ''params'' @ field_text v6 @ '','' @
     key_text ''prev_digest'' @ field_text v7 @ '','' @
     key_text ''result'' @ field_text v8 @ ''}''"
proof -
  have order: "own_key_order
      (filter (\<lambda>key. key \<noteq> ''__proto__'')
        (sort [''cache_ttl'', ''cursor'', ''meta'', ''method'', ''name'', ''params'',
               ''prev_digest'', ''result''])) =
      [''cache_ttl'', ''cursor'', ''meta'', ''method'', ''name'', ''params'',
       ''prev_digest'', ''result'']"
    by (simp add: own_key_order_def is_array_index_def is_digit_def)
  show ?thesis
    unfolding canonicalizeJSON_def list.map fst_conv order
    using assms
    by (simp add: js_prop_def object_text_def join_with_def
        json_text_field key_text_def json_quote_def json_escape_def)
qed

section \<open>The envelope builder\<close>

lemma createEnvelope_eq:
  "createEnvelope L p =
     (let d = keccak L (toUtf8Bytes (canonicalizeJSON
        [(''cache_ttl'', js_or (e_cache_ttl (unsigned_envelope p)) (JNum 0)),
         (''cursor'', js_or (e_cursor (unsigned_envelope p)) JNull),
         (''meta'', js_or (e_meta (unsigned_envelope p)) (JStr [])),
         (''method'', js_or (e_method (unsigned_envelope p)) (JStr [])),
         (''name'', js_or (e_name (unsigned_envelope p)) (JStr [])),
         (''params'', js_or (e_params (unsigned_envelope p)) (JStr [])),
         (''prev_digest'', js_or (e_prev_digest (unsigned_envelope p)) JNull),
         (''result'', js_or (e_result (unsigned_envelope p)) (JStr []))]));
          sg = ecsign L (keccak L (eip191_prefix @ d))
      in if sig_v sg < 256
         then Inr ((unsigned_envelope p)
                \<lparr>e_digest := JStr (hexlify d),
                 e_signature := JStr (hexlify (sig_r sg @ sig_s sg @ [char_of (sig_v sg)]))\<rparr>)
         else Inl invalid_bytes)"
  by (simp add: createEnvelope_def computeDigest_def keccak256_bytes_def Let_def
      eip191_hash_hexlify sign_and_serialise_hexlify)

lemma string_or_json_is_string:
  "v \<noteq> JUndefined \<Longrightarrow> \<exists>s. string_or_json v = JStr s"
  by (cases v) (simp_all add: string_or_json_def JSON_stringify_def)

lemma js_or_string: "js_or (JStr s) (JStr []) = JStr s"
  by (simp add: js_or_def)

lemma js_or_idem: "js_or (js_or v d) d = js_or v d"
  by (simp add: js_or_def)

lemma stub_built: "\<exists>e. createEnvelope stub_crypto stub_params = Inr e"
  by (simp add: createEnvelope_eq stub_crypto_def Let_def)

lemma split_signature_concat:
  "length r = 32 \<Longrightarrow> length s = 32 \<Longrightarrow> v < 256 \<Longrightarrow>
   split_signature (r @ s @ [char_of v]) = \<lparr> sig_r = r, sig_s = s, sig_v = v \<rparr>"
  by (simp add: split_signature_def nth_append)

lemma be_nat_snoc: "be_nat (bs @ [c]) = 256 * be_nat bs + of_char c"
  by (simp add: be_nat_def)

lemma be_nat_less: "be_nat bs < 256 ^ length bs"
proof (induction bs rule: rev_induct)
  case Nil
  show ?case by (simp add: be_nat_def)
next
  case (snoc c bs)
  have "(of_char c :: nat) < 256" by simp
  with snoc have "256 * be_nat bs + of_char c < 256 * 256 ^ length bs" by linarith
  then show ?case by (simp add: be_nat_snoc)
qed

lemma be_nat_leading_zero: "be_nat (CHR 0x00 # bs) = be_nat bs"
  by (simp add: be_nat_def)

lemma low_s_leading_zero: "length bs = 31 \<Longrightarrow> low_s (CHR 0x00 # bs)"
  using be_nat_less [of bs] by (simp add: low_s_def be_nat_leading_zero secp256k1_n_def)

lemma unsigned_envelope_simps:
  "e_name (unsigned_envelope p) = p_name p"
  "e_method (unsigned_envelope p) = p_method p"
  "e_params (unsigned_envelope p) = string_or_json (p_params p)"
  "e_result (unsigned_envelope p) = string_or_json (p_result p)"
  "e_cursor (unsigned_envelope p) = js_or (default_to (p_cursor p) JNull) JNull"
  "e_prev_digest (unsigned_envelope p) = js_or (default_to (p_prevDigest p) JNull) JNull"
  "e_meta (unsigned_envelope p) = string_or_json (default_to (p_meta p) (JObj []))"
  "e_cache_ttl (unsigned_envelope p) = default_to (p_cacheTtl p) (JNum 30)"
  "e_digest (unsigned_envelope p) = JUndefined"
  "e_signature (unsigned_envelope p) = JUndefined"
  by (simp_all add: unsigned_envelope_def Let_def)

lemma createEnvelope_fields:
  assumes "createEnvelope L p = Inr e"
  shows "\<exists>d sg. e = (unsigned_envelope p)\<lparr>e_digest := JStr d, e_signature := JStr sg\<rparr>"
proof -
  from assms show ?thesis
    unfolding createEnvelope_eq Let_def by (simp split: if_splits) blast
qed

section \<open>The rate limiter\<close>

lemma shift_old_split:
  "\<exists>E. r = E @ shift_old ws r \<and> (\<forall>e \<in> set E. e < ws)"
proof (induction r)
  case Nil
  show ?case by simp
next
  case (Cons x r)
  show ?case
  proof (cases "x < ws")
    case True
    from Cons obtain E where "r = E @ shift_old ws r" "\<forall>e \<in> set E. e < ws" by blast
    with True show ?thesis by (intro exI [of _ "x # E"]) simp
  next
    case False
    then show ?thesis by (intro exI [of _ "[]"]) simp
  qed
qed

lemma within_append: "within a b (xs @ ys) = within a b xs @ within a b ys"
  by (simp add: within_def)

lemma within_below: "\<forall>d \<in> set D. d < a \<Longrightarrow> within a b D = []"
  by (induction D) (auto simp add: within_def)

lemma length_within_le: "length (within a b ts) \<le> length ts"
  by (simp add: within_def)

text \<open>The front part of the history stays before the window when the clock moves on.\<close>

lemma sliding_ok_later:
  assumes "sliding_ok rl hist T" "T \<le> T'"
  shows "sliding_ok rl hist T'"
  unfolding sliding_ok_def
proof (intro allI conjI)
  fix k
  from assms(1) obtain D where "hist k = D @ times_of rl k" "\<forall>d \<in> set D. d < T - windowMs rl"
    unfolding sliding_ok_def by blast
  with assms(2) show "\<exists>D. hist k = D @ times_of rl k \<and> (\<forall>d\<in>set D. d < T' - windowMs rl)"
    by (intro exI [of _ D]) auto
next
  fix k a
  from assms(1) show "int (length (within a (a + windowMs rl) (hist k))) \<le> maxRequests rl"
    unfolding sliding_ok_def by blast
qed

text \<open>Replacing the list of one key by its shifted list keeps the invariant.\<close>

lemma sliding_ok_shift:
  assumes ok: "sliding_ok rl hist T" and le: "T \<le> now"
    and rl': "windowMs rl' = windowMs rl" "maxRequests rl' = maxRequests rl"
    and st: "\<And>k. times_of rl' k = times_of rl k
               \<or> times_of rl' k = shift_old (now - windowMs rl) (times_of rl k)"
  shows "sliding_ok rl' hist now"
  unfolding sliding_ok_def
proof (intro allI conjI)
  fix k
  from ok obtain D where D: "hist k = D @ times_of rl k" "\<forall>d \<in> set D. d < T - windowMs rl"
    unfolding sliding_ok_def by blast
  obtain E where E: "times_of rl k = E @ shift_old (now - windowMs rl) (times_of rl k)"
      "\<forall>e \<in> set E. e < now - windowMs rl"
    using shift_old_split by blast
  from st [of k] show "\<exists>D. hist k = D @ times_of rl' k \<and> (\<forall>d\<in>set D. d < now - windowMs rl')"
  proof
    assume "times_of rl' k = times_of rl k"
    with D le rl' show ?thesis by (intro exI [of _ D]) auto
  next
    assume s: "times_of rl' k = shift_old (now - windowMs rl) (times_of rl k)"
    have "hist k = (D @ E) @ times_of rl' k" using D(1) E(1) s by simp
    moreover have "\<forall>d \<in> set (D @ E). d < now - windowMs rl'" using D(2) E(2) le rl' by auto
    ultimately show ?thesis by blast
  qed
next
  fix k a
  from ok rl' show "int (length (within a (a + windowMs rl') (hist k))) \<le> maxRequests rl'"
    unfolding sliding_ok_def by simp
qed

lemma times_of_update:
  "times_of (rl\<lparr>store := (store rl)(key \<mapsto> r)\<rparr>) k = (if k = key then r else times_of rl k)"
  by (simp add: times_of_def)

lemma check_denied:
  assumes "check rl key now = (False, rl')"
  shows "rl' = rl\<lparr>store := (store rl)(key \<mapsto> shift_old (now - windowMs rl) (times_of rl key))\<rparr>
     \<and> maxRequests rl \<le> int (length (shift_old (now - windowMs rl) (times_of rl key)))"
  using assms by (auto simp add: check_def Let_def times_of_def split: if_splits)

lemma check_admitted:
  assumes "check rl key now = (True, rl')"
  shows "rl' = rl\<lparr>store := (store rl)(key \<mapsto> shift_old (now - windowMs rl) (times_of rl key) @ [now])\<rparr>
     \<and> int (length (shift_old (now - windowMs rl) (times_of rl key))) < maxRequests rl"
  using assms by (auto simp add: check_def Let_def times_of_def split: if_splits)

lemma sliding_ok_check_denied:
  assumes ok: "sliding_ok rl hist T" and le: "T \<le> now" and c: "check rl key now = (False, rl')"
  shows "sliding_ok rl' hist now"
proof (rule sliding_ok_shift [OF ok le])
  show "windowMs rl' = windowMs rl" "maxRequests rl' = maxRequests rl"
    using check_denied [OF c] by simp_all
  fix k
  show "times_of rl' k = times_of rl k
      \<or> times_of rl' k = shift_old (now - windowMs rl) (times_of rl k)"
    using check_denied [OF c] by (simp add: times_of_update)
qed

lemma sliding_ok_check_admitted:
  assumes ok: "sliding_ok rl hist T" and le: "T \<le> now" and c: "check rl key now = (True, rl')"
  shows "sliding_ok rl' (hist(key := hist key @ [now])) now"
proof -
  let ?W = "windowMs rl"
  let ?S = "shift_old (now - ?W) (times_of rl key)"
  from check_admitted [OF c] have
    rl': "rl' = rl\<lparr>store := (store rl)(key \<mapsto> ?S @ [now])\<rparr>"
    and room: "int (length ?S) < maxRequests rl" by simp_all
  have W: "windowMs rl' = ?W" and N: "maxRequests rl' = maxRequests rl" by (simp_all add: rl')
  from ok obtain D where D: "hist key = D @ times_of rl key" "\<forall>d \<in> set D. d < T - ?W"
    unfolding sliding_ok_def by blast
  obtain E where E: "times_of rl key = E @ ?S" "\<forall>e \<in> set E. e < now - ?W"
    using shift_old_split by blast
  have front: "\<forall>d \<in> set (D @ E). d < now - ?W" using D(2) E(2) le by auto
  have hk: "hist key = (D @ E) @ ?S" using D(1) E(1) by simp
  show ?thesis
    unfolding sliding_ok_def W N
  proof (intro allI conjI)
    fix k
    show "\<exists>D. (hist(key := hist key @ [now])) k = D @ times_of rl' k
        \<and> (\<forall>d\<in>set D. d < now - ?W)"
    proof (cases "k = key")
      case True
      have "(hist(key := hist key @ [now])) k = (D @ E) @ times_of rl' k"
        using True hk by (simp add: rl' times_of_update)
      with front show ?thesis by blast
    next
      case False
      from ok obtain D' where "hist k = D' @ times_of rl k" "\<forall>d \<in> set D'. d < T - ?W"
        unfolding sliding_ok_def by blast
      with False le show ?thesis
        by (intro exI [of _ D']) (auto simp add: rl' times_of_update)
    qed
  next
    fix k a
    show "int (length (within a (a + ?W) ((hist(key := hist key @ [now])) k)))
        \<le> maxRequests rl"
    proof (cases "k = key \<and> a \<le> now \<and> now \<le> a + ?W")
      case False
      have "within a (a + ?W) ((hist(key := hist key @ [now])) k) = within a (a + ?W) (hist k)"
        using False by (auto simp add: within_def)
      with ok show ?thesis unfolding sliding_ok_def by simp
    next
      case True
      then have "now - ?W \<le> a" by simp
      with front have "\<forall>d \<in> set (D @ E). d < a" by fastforce
      then have "within a (a + ?W) (D @ E) = []" by (rule within_below)
      then have "within a (a + ?W) (hist key) = within a (a + ?W) ?S"
        by (simp add: hk within_append)
      then have "length (within a (a + ?W) (hist key @ [now]))
          = length (within a (a + ?W) ?S) + length (within a (a + ?W) [now])"
        by (simp add: within_append)
      moreover have "length (within a (a + ?W) ?S) \<le> length ?S"
        by (rule length_within_le)
      moreover have "length (within a (a + ?W) [now]) \<le> 1"
        using length_within_le [of a "a + ?W" "[now]"] by simp
      ultimately have "length (within a (a + ?W) (hist key @ [now])) \<le> length ?S + 1"
        by linarith
      with room True show ?thesis by simp
    qed
  qed
qed

lemma sliding_ok_remaining:
  assumes ok: "sliding_ok rl hist T" and le: "T \<le> now"
  shows "sliding_ok (snd (remaining rl key now)) hist now"
proof (rule sliding_ok_shift [OF ok le])
  show "windowMs (snd (remaining rl key now)) = windowMs rl"
    "maxRequests (snd (remaining rl key now)) = maxRequests rl"
    by (simp_all add: remaining_def Let_def split: option.splits)
  fix k
  show "times_of (snd (remaining rl key now)) k = times_of rl k
      \<or> times_of (snd (remaining rl key now)) k = shift_old (now - windowMs rl) (times_of rl k)"
    by (auto simp add: remaining_def Let_def times_of_def split: option.splits)
qed

lemma sliding_ok_cleanup:
  assumes ok: "sliding_ok rl hist T" and le: "T \<le> now"
  shows "sliding_ok (cleanup rl now) hist now"
proof (rule sliding_ok_shift [OF ok le])
  show "windowMs (cleanup rl now) = windowMs rl" "maxRequests (cleanup rl now) = maxRequests rl"
    by (simp_all add: cleanup_def Let_def)
  fix k
  show "times_of (cleanup rl now) k = times_of rl k
      \<or> times_of (cleanup rl now) k = shift_old (now - windowMs rl) (times_of rl k)"
    by (auto simp add: cleanup_def Let_def times_of_def split: option.splits)
qed

lemma hist_of_snoc:
  "hist_of api (H @ [(req, t)]) =
     (if truthy (x_api_key req) = api
      then (hist_of api H)(identifier_of req := hist_of api H (identifier_of req) @ [t])
      else hist_of api H)"
  by (auto simp add: hist_of_def fun_eq_iff)

lemma check_params:
  "check rl key now = (ok, rl') \<Longrightarrow> windowMs rl' = windowMs rl \<and> maxRequests rl' = maxRequests rl"
  by (auto simp add: check_def Let_def split: if_splits)

lemma remaining_params:
  "windowMs (snd (remaining rl key now)) = windowMs rl
   \<and> maxRequests (snd (remaining rl key now)) = maxRequests rl"
  by (simp add: remaining_def Let_def split: option.splits)

lemma middleware_denied:
  assumes "check (if truthy (x_api_key req) then apiKeyRateLimiter ls else ipRateLimiter ls)
             (identifier_of req) now1 = (False, rl1)"
  shows "rateLimitMiddleware ls req now1 now2 now3 =
     (Denied 429 rate_limit_body,
      if truthy (x_api_key req) then ls\<lparr>apiKeyRateLimiter := rl1\<rparr> else ls\<lparr>ipRateLimiter := rl1\<rparr>)"
  using assms by (simp add: rateLimitMiddleware_def Let_def rate_limit_body_def)

lemma middleware_admitted:
  assumes "check (if truthy (x_api_key req) then apiKeyRateLimiter ls else ipRateLimiter ls)
             (identifier_of req) now1 = (True, rl1)"
  shows "\<exists>h. rateLimitMiddleware ls req now1 now2 now3 =
     (Admitted h,
      if truthy (x_api_key req)
      then ls\<lparr>apiKeyRateLimiter := snd (remaining rl1 (identifier_of req) now2)\<rparr>
      else ls\<lparr>ipRateLimiter := snd (remaining rl1 (identifier_of req) now2)\<rparr>)"
  using assms by (simp add: rateLimitMiddleware_def Let_def split: prod.splits)

lemma gateway_ok_request:
  assumes ok: "gateway_ok ls H T" and t: "T \<le> now1" "now1 \<le> now2"
    and m: "rateLimitMiddleware ls req now1 now2 now3 = (out, ls1)"
  shows "gateway_ok ls1 (case out of Denied st b \<Rightarrow> H | Admitted h \<Rightarrow> H @ [(req, now1)]) now2"
proof -
  let ?api = "truthy (x_api_key req)"
  let ?l = "if ?api then apiKeyRateLimiter ls else ipRateLimiter ls"
  let ?k = "identifier_of req"
  obtain b rl1 where c: "check ?l ?k now1 = (b, rl1)" by (cases "check ?l ?k now1")
  have T2: "T \<le> now2" using t by simp
  have sl: "sliding_ok ?l (hist_of ?api H) T"
    using ok by (simp add: gateway_ok_def)
  have other_ip: "sliding_ok (ipRateLimiter ls) (hist_of False H) now2"
    and other_api: "sliding_ok (apiKeyRateLimiter ls) (hist_of True H) now2"
    using ok sliding_ok_later [OF _ T2] by (simp_all add: gateway_ok_def)
  have par: "windowMs rl1 = windowMs ?l" "maxRequests rl1 = maxRequests ?l"
    using check_params [OF c] by simp_all
  show ?thesis
  proof (cases b)
    case False
    with c have c': "check ?l ?k now1 = (False, rl1)" by simp
    have r: "sliding_ok rl1 (hist_of ?api H) now2"
      using sliding_ok_later [OF sliding_ok_check_denied [OF sl t(1) c'] t(2)] .
    from middleware_denied [OF c', of now2 now3] m
    have out: "out = Denied 429 rate_limit_body"
      and ls1: "ls1 = (if ?api then ls\<lparr>apiKeyRateLimiter := rl1\<rparr> else ls\<lparr>ipRateLimiter := rl1\<rparr>)"
      by simp_all
    show ?thesis
      using r other_ip other_api par ok
      by (cases ?api) (simp_all add: out ls1 gateway_ok_def)
  next
    case True
    with c have c': "check ?l ?k now1 = (True, rl1)" by simp
    let ?rl2 = "snd (remaining rl1 ?k now2)"
    have r: "sliding_ok ?rl2 ((hist_of ?api H)(?k := hist_of ?api H ?k @ [now1])) now2"
      using sliding_ok_remaining [OF sliding_ok_check_admitted [OF sl t(1) c'] t(2)] .
    from middleware_admitted [OF c', of now2 now3] m obtain h where
      out: "out = Admitted h"
      and ls1: "ls1 = (if ?api then ls\<lparr>apiKeyRateLimiter := ?rl2\<rparr> else ls\<lparr>ipRateLimiter := ?rl2\<rparr>)"
      by auto
    have par2: "windowMs ?rl2 = windowMs ?l" "maxRequests ?rl2 = maxRequests ?l"
      using remaining_params [of rl1 ?k now2] par by simp_all
    show ?thesis
    proof (cases ?api)
      case True
      then show ?thesis
        using r other_ip par2 ok by (simp add: out ls1 gateway_ok_def hist_of_snoc)
    next
      case False
      then show ?thesis
        using r other_api par2 ok by (simp add: out ls1 gateway_ok_def hist_of_snoc)
    qed
  qed
qed

lemma cleanup_params:
  "windowMs (cleanup rl now) = windowMs rl \<and> maxRequests (cleanup rl now) = maxRequests rl"
  by (simp add: cleanup_def Let_def)

lemma gateway_ok_sweep:
  assumes ok: "gateway_ok ls H T" and t: "T \<le> now1" "now1 \<le> now2"
  shows "gateway_ok (ls\<lparr>ipRateLimiter := cleanup (ipRateLimiter ls) now1,
           apiKeyRateLimiter := cleanup (apiKeyRateLimiter ls) now2\<rparr>) H now2"
proof -
  have T2: "T \<le> now2" using t by simp
  have "sliding_ok (cleanup (ipRateLimiter ls) now1) (hist_of False H) now2"
    using ok sliding_ok_later [OF sliding_ok_cleanup [OF _ t(1)] t(2)]
    by (simp add: gateway_ok_def)
  moreover have "sliding_ok (cleanup (apiKeyRateLimiter ls) now2) (hist_of True H) now2"
    using ok sliding_ok_cleanup [OF _ T2] by (simp add: gateway_ok_def)
  ultimately show ?thesis
    using ok by (simp add: gateway_ok_def cleanup_params)
qed

lemma gateway_ok_run:
  assumes "gateway_ok ls H T" "sorted (T # concat (map event_times evs))"
    "run_gateway ls evs = (ls', log)"
  shows "\<exists>T'. gateway_ok ls' (H @ log) T'"
  using assms
proof (induction evs arbitrary: ls H T log)
  case Nil
  then show ?case by auto
next
  case (Cons ev evs)
  show ?case
  proof (cases ev)
    case (Request req now1 now2 now3)
    from Cons.prems(2) have t: "T \<le> now1" "now1 \<le> now2"
      and rest: "sorted (now2 # concat (map event_times evs))"
      by (auto simp add: Request)
    obtain out ls1 where m: "rateLimitMiddleware ls req now1 now2 now3 = (out, ls1)"
      by (cases "rateLimitMiddleware ls req now1 now2 now3")
    note step = gateway_ok_request [OF Cons.prems(1) t m]
    show ?thesis
    proof (cases out)
      case (Denied st b)
      with Cons.prems(3) m have "run_gateway ls1 evs = (ls', log)" by (simp add: Request)
      moreover from step Denied have "gateway_ok ls1 H now2" by simp
      ultimately show ?thesis using Cons.IH [OF _ rest] by blast
    next
      case (Admitted h)
      with Cons.prems(3) m obtain log' where
        r: "run_gateway ls1 evs = (ls', log')" and l: "log = (req, now1) # log'"
        by (auto simp add: Request split: prod.splits)
      from step Admitted have "gateway_ok ls1 (H @ [(req, now1)]) now2" by simp
      from Cons.IH [OF this rest r] show ?thesis by (simp add: l)
    qed
  next
    case (Sweep now1 now2)
    from Cons.prems(2) have t: "T \<le> now1" "now1 \<le> now2"
      and rest: "sorted (now2 # concat (map event_times evs))"
      by (auto simp add: Sweep)
    from Cons.prems(3) have r: "run_gateway (ls\<lparr>ipRateLimiter := cleanup (ipRateLimiter ls) now1,
           apiKeyRateLimiter := cleanup (apiKeyRateLimiter ls) now2\<rparr>) evs = (ls', log)"
      by (simp add: Sweep)
    from Cons.IH [OF gateway_ok_sweep [OF Cons.prems(1) t] rest r] show ?thesis .
  qed
qed

lemma gateway_ok_initial: "gateway_ok initial_limiters [] T"
  by (simp add: gateway_ok_def initial_limiters_def new_RateLimiter_def sliding_ok_def
      hist_of_def times_of_def within_def)

lemma admitted_in_hist:
  "length (admitted_in api k a b log) = length (within a b (hist_of api log k))"
proof -
  have "map snd (admitted_in api k a b log) = within a b (hist_of api log k)"
    by (induction log) (auto simp add: admitted_in_def within_def hist_of_def)
  then show ?thesis by (metis length_map)
qed

lemma sorted_from_least:
  "sorted ts \<Longrightarrow> \<exists>T. sorted (T # ts)"
  by (cases ts) (auto intro: exI [of _ "hd ts"])

lemma demo_run:
  "\<exists>ls. run_gateway initial_limiters demo_events
     = (ls, [(demo_client, 1000), (demo_client, 300001)])"
  by (simp add: demo_events_def initial_limiters_def new_RateLimiter_def rateLimitMiddleware_def
      check_def remaining_def cleanup_def Let_def identifier_of_def demo_client_def js_or_def)

lemma full_check:
  "check full_limiter (JStr ''10.0.0.1'') 60400
     = (False, full_limiter\<lparr>store := [JStr ''10.0.0.1'' \<mapsto> [500, 900]]\<rparr>)"
  by (simp add: check_def full_limiter_def Let_def)

text \<open>A burst of a hundred requests fills the window of the client.\<close>

lemma shift_old_none: "\<forall>t \<in> set r. ws \<le> t \<Longrightarrow> shift_old ws r = r"
  by (cases r) simp_all

lemma demo_identifier:
  "identifier_of demo_client = JStr ''10.0.0.1''" "\<not> truthy (x_api_key demo_client)"
  by (simp_all add: identifier_of_def demo_client_def js_or_def)

lemma demo_admitted:
  assumes w: "windowMs (ipRateLimiter ls) = 60000" and m: "maxRequests (ipRateLimiter ls) = 100"
    and old: "times_of (ipRateLimiter ls) (JStr ''10.0.0.1'') = old"
    and fresh: "\<forall>s \<in> set old. t - 60000 \<le> s" and room: "length old < 100"
  shows "\<exists>h ls'. rateLimitMiddleware ls demo_client t t t = (Admitted h, ls')
      \<and> windowMs (ipRateLimiter ls') = 60000 \<and> maxRequests (ipRateLimiter ls') = 100
      \<and> times_of (ipRateLimiter ls') (JStr ''10.0.0.1'') = old @ [t]"
  using assms
  by (auto simp add: rateLimitMiddleware_def demo_identifier check_def remaining_def Let_def
      times_of_def shift_old_none split: option.splits)

lemma demo_burst:
  assumes "windowMs (ipRateLimiter ls) = 60000" and "maxRequests (ipRateLimiter ls) = 100"
    and "times_of (ipRateLimiter ls) (JStr ''10.0.0.1'') = old"
    and "\<forall>s \<in> set (old @ ts). 0 \<le> s \<and> s < 60000" and "length old + length ts \<le> 100"
  shows "windowMs (ipRateLimiter (fst (run_gateway ls (map (\<lambda>t. Request demo_client t t t) ts))))
      = 60000
    \<and> maxRequests (ipRateLimiter (fst (run_gateway ls (map (\<lambda>t. Request demo_client t t t) ts))))
      = 100
    \<and> times_of (ipRateLimiter (fst (run_gateway ls (map (\<lambda>t. Request demo_client t t t) ts))))
         (JStr ''10.0.0.1'') = old @ ts"
  using assms
proof (induction ts arbitrary: ls old)
  case Nil
  then show ?case by simp
next
  case (Cons t ts)
  have "t < 60000" and "\<forall>s \<in> set old. 0 \<le> s" using Cons.prems(4) by simp_all
  then have "\<forall>s \<in> set old. t - 60000 \<le> s" by fastforce
  moreover have "length old < 100" using Cons.prems(5) by simp
  ultimately obtain h ls' where
    a: "rateLimitMiddleware ls demo_client t t t = (Admitted h, ls')"
    and p: "windowMs (ipRateLimiter ls') = 60000" "maxRequests (ipRateLimiter ls') = 100"
    and s: "times_of (ipRateLimiter ls') (JStr ''10.0.0.1'') = old @ [t]"
    using demo_admitted [OF Cons.prems(1,2,3)] by blast
  have "\<forall>s \<in> set ((old @ [t]) @ ts). 0 \<le> s \<and> s < 60000" using Cons.prems(4) by simp
  moreover have "length (old @ [t]) + length ts \<le> 100" using Cons.prems(5) by simp
  ultimately have
    "windowMs (ipRateLimiter (fst (run_gateway ls' (map (\<lambda>t. Request demo_client t t t) ts))))
      = 60000
    \<and> maxRequests (ipRateLimiter (fst (run_gateway ls' (map (\<lambda>t. Request demo_client t t t) ts))))
      = 100
    \<and> times_of (ipRateLimiter (fst (run_gateway ls' (map (\<lambda>t. Request demo_client t t t) ts))))
         (JStr ''10.0.0.1'') = (old @ [t]) @ ts"
    by (rule Cons.IH [OF p s])
  moreover have "fst (run_gateway ls (map (\<lambda>t. Request demo_client t t t) (t # ts)))
      = fst (run_gateway ls' (map (\<lambda>t. Request demo_client t t t) ts))"
    by (simp add: a split: prod.splits)
  ultimately show ?case by simp
qed

lemma burst_fills:
  "windowMs (ipRateLimiter (fst (run_gateway initial_limiters burst))) = 60000
   \<and> maxRequests (ipRateLimiter (fst (run_gateway initial_limiters burst))) = 100
   \<and> times_of (ipRateLimiter (fst (run_gateway initial_limiters burst))) (JStr ''10.0.0.1'')
        = map int [1000 ..< 1100]"
proof -
  have "times_of (ipRateLimiter initial_limiters) (JStr ''10.0.0.1'') = []"
    by (simp add: initial_limiters_def new_RateLimiter_def times_of_def)
  moreover have "windowMs (ipRateLimiter initial_limiters) = 60000"
    "maxRequests (ipRateLimiter initial_limiters) = 100"
    by (simp_all add: initial_limiters_def new_RateLimiter_def)
  moreover have "\<forall>s \<in> set ([] @ map int [1000 ..< 1100]). 0 \<le> s \<and> s < 60000" by auto
  moreover have "length ([] :: int list) + length (map int [1000 ..< 1100]) \<le> 100" by simp
  ultimately show ?thesis
    unfolding burst_def using demo_burst [of initial_limiters "[]" "map int [1000 ..< 1100]"]
    by simp
qed

lemma full_denied:
  assumes w: "windowMs (ipRateLimiter ls) = 60000" and m: "maxRequests (ipRateLimiter ls) = 100"
    and old: "times_of (ipRateLimiter ls) (JStr ''10.0.0.1'') = old"
    and fresh: "\<forall>s \<in> set old. t - 60000 \<le> s" and full: "100 \<le> length old"
  shows "fst (rateLimitMiddleware ls demo_client t t' t'') = Denied 429 rate_limit_body"
  using assms
  by (auto simp add: rateLimitMiddleware_def demo_identifier check_def Let_def rate_limit_body_def
      times_of_def shift_old_none split: option.splits)

lemma after_burst_denied:
  "fst (rateLimitMiddleware (fst (run_gateway initial_limiters burst)) demo_client 2000 2000 2000)
     = Denied 429 rate_limit_body"
proof -
  have "\<forall>s \<in> set (map int [1000 ..< 1100]). 2000 - 60000 \<le> s" by auto
  moreover have "100 \<le> length (map int [1000 ..< 1100])" by simp
  ultimately show ?thesis
    using burst_fills full_denied by blast
qed

section \<open>The lookup route\<close>

lemma validateRequest_rejects:
  "validation_errors nh b \<noteq> [] \<Longrightarrow>
   validateRequest nh b =
     Respond 400 (JObj [(''error'', JStr ''Validation failed''),
                        (''details'', JArr (map JStr (validation_errors nh b)))])"
  by (simp add: validateRequest_def Let_def)

lemma validateRequest_passes:
  "validation_errors nh b = [] \<Longrightarrow> validateRequest nh b = Next (sanitized_body b)"
  by (simp add: validateRequest_def Let_def)

lemma sanitized_body_fields:
  "b_node (sanitized_body b) = b_node b"
  "b_data (sanitized_body b) = b_data b"
  "b_useEnvelope (sanitized_body b) = b_useEnvelope b"
  by (simp_all add: sanitized_body_def)

lemma bad_name_errors: "validation_errors nh bad_name_body = [''Invalid ENS name'']"
  by (simp add: validation_errors_def node_errors_def name_errors_def data_errors_def
      params_errors_def bad_name_body_def sanitizeString_def trim_def is_space_def
      isValidENSName_def ens_regex_def ens_char_def lower_def Let_def)

lemma falsy_data_is_small: "\<not> truthy (b_data b) \<Longrightarrow> dataSize b \<le> 5"
  by (cases "b_data b")
     (auto simp add: dataSize_def json_quote_def number_text_def digits_of.simps)

lemma oversized_data_rejected:
  assumes "100 * 1024 < dataSize b"
  shows "''Request data too large (max 100KB)'' \<in> set (validation_errors nh b)"
proof -
  have "truthy (b_data b)" using assms falsy_data_is_small [of b] by fastforce
  with assms show ?thesis by (simp add: validation_errors_def data_errors_def)
qed

text \<open>The sizes of the sample data.\<close>

lemma twenty: "number_text 100000000000000000000 = ''100000000000000000000''"
  by (simp add: number_text_def digits_of.simps)

lemma json_elems_numbers: "json_elems (replicate n (JNum k)) = replicate n (number_text k)"
  by (induction n) simp_all

lemma length_join_replicate:
  "length (join_with sep (x # replicate n s)) = length x + n * (length sep + length s)"
  by (simp add: join_with_def length_concat comp_def sum_list_replicate)

lemma length_join_same:
  "0 < n \<Longrightarrow> length (join_with sep (replicate n s)) = n * length s + (n - 1) * length sep"
  by (cases n) (simp_all add: length_join_replicate algebra_simps)

lemma json_quote_plain:
  "json_escape c = [c] \<Longrightarrow> json_quote (replicate n c) = CHR 0x22 # replicate n c @ [CHR 0x22]"
proof -
  assume "json_escape c = [c]"
  then have "concat (map json_escape (replicate n c)) = replicate n c"
    by (induction n) simp_all
  then show ?thesis by (simp add: json_quote_def)
qed

lemma long_body_size: "dataSize long_body = 110001"
  by (simp add: dataSize_def long_body_def json_elems_numbers twenty length_join_same)

lemma wide_body_size: "dataSize wide_body = 63004"
  by (simp add: dataSize_def wide_body_def json_elems_numbers twenty length_join_replicate
      json_quote_plain json_escape_def)

lemma toUtf8Bytes_append: "toUtf8Bytes (a @ b) = toUtf8Bytes a @ toUtf8Bytes b"
  by (simp add: toUtf8Bytes_def)

lemma length_toUtf8Bytes:
  "length (toUtf8Bytes s) = length s + length (filter (\<lambda>c. 128 \<le> (of_char c :: nat)) s)"
  by (induction s) (simp_all add: toUtf8Bytes_def utf8_unit_def Let_def)

lemma filter_join_digits:
  "\<forall>c \<in> set sep \<union> set s. \<not> P c \<Longrightarrow> filter P (concat (map (\<lambda>t. sep @ t) (replicate n s))) = []"
  by (induction n) simp_all

lemma wide_body_bytes: "serialized_bytes (b_data wide_body) = 104004"
  by (simp add: serialized_bytes_def wide_body_def json_elems_numbers twenty join_with_def
      json_quote_plain json_escape_def length_toUtf8Bytes length_concat comp_def
      sum_list_replicate filter_join_digits)

lemma zero_node_valid: "isValidNode nh zero_node"
  by (simp add: isValidNode_def zero_node_def length_hexlify) (simp add: hexlify_def)

lemma sample_name_valid: "isValidENSName (JStr (sanitizeString (JStr ''pricefeed.eth'') 255))"
  by (simp add: sanitizeString_def trim_def is_space_def
      isValidENSName_def ens_regex_def ens_char_def lower_def Let_def)


lemma lookup_route_valid:
  "validation_errors (namehash_ok R) b = [] \<Longrightarrow>
   lookup_route R M clk b = lookup_handler R M clk (sanitized_body b)"
  by (simp add: lookup_route_def validateRequest_passes)

lemma nosuch_errors: "validation_errors nh nosuch_body = []"
  by (simp add: validation_errors_def node_errors_def name_errors_def data_errors_def
      params_errors_def)
     (simp add: nosuch_body_def sample_body_def zero_node_valid sample_name_valid dataSize_def
        json_quote_def json_escape_def)

lemma stub_parse_empty_object: "parse_params_bytes stub_runtime (hexlify ''{}'') = Some (JObj [])"
  by (simp add: parse_params_bytes_def getBytes_hexlify stub_runtime_def del: getBytes.simps(2))

lemma hexlify_nonempty: "hexlify bs \<noteq> []"
  by (simp add: hexlify_def)

lemma nosuch_decoded:
  "decodeCallData stub_runtime (JStr ''0x02'') =
     (JStr ''nosuch'', JObj [], [AbiDecode ''0x02'', JsonParse (hexlify ''{}'')])"
proof -
  have a: "abi_decode stub_runtime [''string'', ''bytes''] ''0x02''
      = Some (''nosuch'', hexlify ''{}'')"
    by (simp add: stub_runtime_def)
  show ?thesis
    by (simp add: decodeCallData_def has_call_data_def decode_hex_def a
        stub_parse_empty_object hexlify_nonempty js_or_def Let_def)
qed

lemma nosuch_dispatch:
  "executeCompute stub_runtime (JStr ''nosuch'') (JObj []) =
     Inl (Error ''Unknown compute function: nosuch'')"
  by (simp add: executeCompute_def computeFunctions_def stub_runtime_def)

text \<open>Whatever fails inside the handler, the handler sends no response for it.\<close>

lemma handler_failure_is_rejected:
  assumes "executeCompute R (fst (decodeCallData R (b_data b)))
             (fst (snd (decodeCallData R (b_data b)))) = Inl err"
    and "truthy (b_node b)"
  shows "answer (lookup_handler R M clk b)
           = Rejected (ReferenceError ''functionName is not defined'')
    \<and> metrics_after (lookup_handler R M clk b) = M"
  using assms
  by (auto simp add: lookup_handler_def lookup_catch_def split: prod.splits)

lemma stub_parse_not_json:
  "parse_params_bytes stub_runtime (hexlify ''not json'') = None"
  by (simp add: parse_params_bytes_def getBytes_hexlify stub_runtime_def del: getBytes.simps(2))






lemma sample_dispatch:
  "executeCompute stub_runtime (JStr ''pricefeed'') (JObj []) = Inr stub_result"
  by (simp add: executeCompute_def computeFunctions_def stub_runtime_def default_to_def)


lemma sample_envelope_built: "\<exists>e. createEnvelope stub_crypto sample_envelope_params = Inr e"
  by (simp add: createEnvelope_eq stub_crypto_def Let_def)


text \<open>The sample requests on the route and at the limiter.\<close>

lemma long_body_errors:
  "validation_errors nh long_body = [''Request data too large (max 100KB)'']"
  using long_body_size
  by (simp add: validation_errors_def node_errors_def name_errors_def data_errors_def
      params_errors_def zero_node_valid sample_name_valid)
     (simp add: long_body_def sample_body_def zero_node_valid sample_name_valid)

lemma wide_body_errors: "validation_errors nh wide_body = []"
  using wide_body_size
  by (simp add: validation_errors_def node_errors_def name_errors_def data_errors_def
      params_errors_def zero_node_valid sample_name_valid)
     (simp add: wide_body_def sample_body_def zero_node_valid sample_name_valid)

lemma array_decoded:
  "decodeCallData R (JArr (v # vs)) = (JStr ''pricefeed'', JObj [], [])"
  by (simp add: decodeCallData_def has_call_data_def decode_object_def default_method_def
      js_or_def)

lemma sample_lookup_envelope_params_data:
  "lookup_envelope_params stub_clock (sanitized_body (sample_body\<lparr>b_data := d\<rparr>))
     (JStr ''pricefeed'') (JObj []) stub_result = Inr sample_envelope_params"
  by (simp add: lookup_envelope_params_def sample_envelope_params_def js_prop_def js_or_def
      sanitized_body_def sample_body_def sanitizeString_def trim_def is_space_def Let_def)

lemma wide_body_served:
  "\<exists>e. answer (lookup_route stub_runtime M stub_clock wide_body)
          = Responded 200 (JObj [(''data'', JStr ''0xe1''), (''envelope'', envelope_json e)])
      \<and> calls (lookup_route stub_runtime M stub_clock wide_body)
          = [Compute (JStr ''pricefeed'') (JObj []), SignEnvelope]"
proof -
  obtain e where e: "createEnvelope stub_crypto sample_envelope_params = Inr e"
    using sample_envelope_built by blast
  have w: "wallet stub_runtime = stub_crypto" by (simp add: stub_runtime_def)
  have enc: "abi_encode stub_runtime [envelope_tuple_type] [ArgJs (JArr (envelope_tuple e))]
      = Some ''0xe1''"
    by (simp add: stub_runtime_def)
  have n: "truthy (b_node wide_body)" "b_useEnvelope wide_body \<noteq> JBool False"
    by (simp_all add: wide_body_def sample_body_def zero_node_def hexlify_nonempty)
  have d: "decodeCallData stub_runtime (b_data wide_body) = (JStr ''pricefeed'', JObj [], [])"
    by (simp add: wide_body_def array_decoded)
  have p: "lookup_envelope_params stub_clock (sanitized_body wide_body)
     (JStr ''pricefeed'') (JObj []) stub_result = Inr sample_envelope_params"
    unfolding wide_body_def by (rule sample_lookup_envelope_params_data)
  have "lookup_route stub_runtime M stub_clock wide_body
      = respond_ok stub_runtime M stub_clock (JStr ''pricefeed'')
          [Compute (JStr ''pricefeed'') (JObj []), SignEnvelope]
          (JObj [(''data'', JStr ''0xe1''), (''envelope'', envelope_json e)])"
    by (simp add: lookup_route_valid wide_body_errors lookup_handler_def sanitized_body_fields
        n d sample_dispatch envelope_path_def p w e enc)
  then show ?thesis by (auto simp add: respond_ok_def)
qed

lemma demo_first_admitted:
  "rateLimitMiddleware initial_limiters demo_client 1000 1000 1000 =
     (Admitted \<lparr> x_ratelimit_limit = 100, x_ratelimit_remaining = 99,
                 x_ratelimit_reset = 61000 \<rparr>,
      initial_limiters\<lparr>ipRateLimiter :=
        (ipRateLimiter initial_limiters)\<lparr>store := [JStr ''10.0.0.1'' \<mapsto> [1000]]\<rparr>\<rparr>)"
  by (simp add: rateLimitMiddleware_def demo_identifier check_def remaining_def Let_def
      initial_limiters_def new_RateLimiter_def)

lemma huge_body_errors:
  "validation_errors nh huge_body = [''Request data too large (max 100KB)'']"
proof -
  have "dataSize huge_body = 110002"
    by (simp add: dataSize_def huge_body_def json_quote_plain json_escape_def)
  then show ?thesis
    by (simp add: validation_errors_def node_errors_def name_errors_def data_errors_def
        params_errors_def zero_node_valid sample_name_valid)
       (simp add: huge_body_def sample_body_def zero_node_valid sample_name_valid)
qed

lemma huge_body_bytes: "serialized_bytes (b_data huge_body) = 110002"
  by (simp add: serialized_bytes_def huge_body_def json_quote_plain json_escape_def
      length_toUtf8Bytes)

lemma envelope_path_answers:
  "(\<exists>payload. answer (envelope_path R M clk b f ps r cs) = Responded 200 payload)
   \<or> answer (envelope_path R M clk b f ps r cs)
       = Rejected (ReferenceError ''functionName is not defined'')"
  by (simp add: envelope_path_def lookup_catch_def respond_ok_def split: sum.splits option.splits)

lemma legacy_path_answers:
  "(\<exists>payload. answer (legacy_path R M clk f r cs) = Responded 200 payload)
   \<or> answer (legacy_path R M clk f r cs)
       = Rejected (ReferenceError ''functionName is not defined'')"
  by (simp add: legacy_path_def lookup_catch_def respond_ok_def
      split: sum.splits option.splits jsval.splits)

lemma lookup_handler_answers:
  "(\<exists>payload. answer (lookup_handler R M clk b) = Responded 200 payload)
   \<or> answer (lookup_handler R M clk b)
       = Responded 400 (JObj [(''error'', JStr ''Missing node parameter'')])
   \<or> answer (lookup_handler R M clk b)
       = Rejected (ReferenceError ''functionName is not defined'')"
proof (cases "truthy (b_node b)")
  case False
  then show ?thesis by (simp add: lookup_handler_def)
next
  case True
  obtain f ps cs where d: "decodeCallData R (b_data b) = (f, ps, cs)"
    by (cases "decodeCallData R (b_data b)")
  show ?thesis
  proof (cases "executeCompute R f ps")
    case (Inl err)
    with True d show ?thesis by (simp add: lookup_handler_def lookup_catch_def)
  next
    case (Inr r)
    with True d envelope_path_answers [of R M clk b f ps r "cs @ [Compute f ps]"]
      legacy_path_answers [of R M clk f r "cs @ [Compute f ps]"]
    show ?thesis by (auto simp add: lookup_handler_def Let_def)
  qed
qed

lemma bucket_labels:
  "number_text 10 = ''10''" "number_text 50 = ''50''" "number_text 100 = ''100''"
  "number_text 500 = ''500''" "number_text 1000 = ''1000''" "number_text 5000 = ''5000''"
  by (simp_all add: number_text_def digits_of.simps)

lemma stub_preimage:
  assumes "createEnvelope stub_crypto stub_params = Inr e"
  shows "canonical_preimage e =
     ''{'' @ [CHR 0x22] @ ''cache_ttl'' @ [CHR 0x22] @ '':30,''
     @ [CHR 0x22] @ ''cursor'' @ [CHR 0x22] @ '':null,''
     @ [CHR 0x22] @ ''meta'' @ [CHR 0x22] @ '':'' @ [CHR 0x22] @ ''{}'' @ [CHR 0x22] @ '',''
     @ [CHR 0x22] @ ''method'' @ [CHR 0x22] @ '':'' @ [CHR 0x22] @ ''pricefeed'' @ [CHR 0x22] @ '',''
     @ [CHR 0x22] @ ''name'' @ [CHR 0x22] @ '':'' @ [CHR 0x22] @ ''pricefeed.eth'' @ [CHR 0x22] @ '',''
     @ [CHR 0x22] @ ''params'' @ [CHR 0x22] @ '':'' @ [CHR 0x22]
        @ ''{'' @ [CHR 0x5C, CHR 0x22] @ ''pair'' @ [CHR 0x5C, CHR 0x22] @ '':''
        @ [CHR 0x5C, CHR 0x22] @ ''ethereum'' @ [CHR 0x5C, CHR 0x22] @ ''}'' @ [CHR 0x22] @ '',''
     @ [CHR 0x22] @ ''prev_digest'' @ [CHR 0x22] @ '':null,''
     @ [CHR 0x22] @ ''result'' @ [CHR 0x22] @ '':'' @ [CHR 0x22]
        @ ''{'' @ [CHR 0x5C, CHR 0x22] @ ''success'' @ [CHR 0x5C, CHR 0x22] @ '':true}''
        @ [CHR 0x22] @ ''}''"
proof -
  from createEnvelope_fields [OF assms] obtain d sg
    where e: "e = (unsigned_envelope stub_params)\<lparr>e_digest := JStr d, e_signature := JStr sg\<rparr>"
    by blast
  show ?thesis
    by (simp add: e canonical_preimage_def unsigned_envelope_simps stub_params_def key_text_def
        field_text_def default_to_def js_or_def string_or_json_def JSON_stringify_def
        object_text_def join_with_def json_quote_def json_escape_def number_text_def
        digits_of.simps)
qed

section \<open>C1: the digest is the hash of the canonical preimage\<close>

text \<open>
  Claim C1. For every envelope the builder produces from a well-typed input (name and
  method are strings, params and result are present, the cache lifetime is missing or a
  number), the digest field is the keccak-256 hash of the UTF-8 bytes of the canonical
  preimage: the eight content fields under the keys \<open>cache_ttl\<close>, \<open>cursor\<close>, \<open>meta\<close>,
  \<open>method\<close>, \<open>name\<close>, \<open>params\<close>, \<open>prev_digest\<close>, \<open>result\<close> in this order, without
  whitespace. A missing cursor or previous digest is null in the envelope, and then the
  preimage contains \<open>,"cursor":null,\<close> and \<open>,"prev_digest":null,\<close>.
\<close>

theorem digest_exactness:
  assumes built: "createEnvelope L p = Inr e"
    and name: "typeof (p_name p) = ''string''"
    and meth: "typeof (p_method p) = ''string''"
    and params: "p_params p \<noteq> JUndefined"
    and result: "p_result p \<noteq> JUndefined"
    and ttl: "p_cacheTtl p = JUndefined \<or> typeof (p_cacheTtl p) = ''number''"
  shows "e_digest e = JStr (hexlify (keccak L (toUtf8Bytes (canonical_preimage e))))
    \<and> (p_cursor p = JUndefined \<longrightarrow> e_cursor e = JNull)
    \<and> (p_prevDigest p = JUndefined \<longrightarrow> e_prev_digest e = JNull)
    \<and> (e_cursor e = JNull \<longrightarrow>
         sublist ('','' @ key_text ''cursor'' @ ''null,'') (canonical_preimage e))
    \<and> (e_prev_digest e = JNull \<longrightarrow>
         sublist ('','' @ key_text ''prev_digest'' @ ''null,'') (canonical_preimage e))"
proof -
  let ?u = "unsigned_envelope p"
  obtain n where n: "p_name p = JStr n" using name by (cases "p_name p") simp_all
  obtain m where m: "p_method p = JStr m" using meth by (cases "p_method p") simp_all
  obtain ps where ps: "string_or_json (p_params p) = JStr ps"
    using string_or_json_is_string [OF params] by blast
  obtain rs where rs: "string_or_json (p_result p) = JStr rs"
    using string_or_json_is_string [OF result] by blast
  have "default_to (p_meta p) (JObj []) \<noteq> JUndefined" by (simp add: default_to_def)
  then obtain ms where ms: "string_or_json (default_to (p_meta p) (JObj [])) = JStr ms"
    using string_or_json_is_string by blast
  obtain t where t: "default_to (p_cacheTtl p) (JNum 30) = JNum t"
    using ttl by (cases "p_cacheTtl p") (auto simp add: default_to_def)
  have fields: "e_name ?u = JStr n" "e_method ?u = JStr m" "e_params ?u = JStr ps"
    "e_result ?u = JStr rs" "e_meta ?u = JStr ms" "e_cache_ttl ?u = JNum t"
    "e_cursor ?u = js_or (default_to (p_cursor p) JNull) JNull"
    "e_prev_digest ?u = js_or (default_to (p_prevDigest p) JNull) JNull"
    by (simp_all add: unsigned_envelope_def n m ps rs ms t)
  have ors: "js_or (JNum t) (JNum 0) = JNum t" by (simp add: js_or_def)
  have canon: "canonicalizeJSON
        [(''cache_ttl'', js_or (e_cache_ttl ?u) (JNum 0)),
         (''cursor'', js_or (e_cursor ?u) JNull),
         (''meta'', js_or (e_meta ?u) (JStr [])),
         (''method'', js_or (e_method ?u) (JStr [])),
         (''name'', js_or (e_name ?u) (JStr [])),
         (''params'', js_or (e_params ?u) (JStr [])),
         (''prev_digest'', js_or (e_prev_digest ?u) JNull),
         (''result'', js_or (e_result ?u) (JStr []))] = canonical_preimage ?u"
    unfolding fields js_or_string js_or_idem ors canonical_preimage_def
    by (rule canonicalizeJSON_eight) (simp_all add: js_or_defined)
  from built obtain d sg where e: "e = ?u\<lparr>e_digest := JStr d, e_signature := JStr sg\<rparr>"
    and d: "d = hexlify (keccak L (toUtf8Bytes (canonical_preimage ?u)))"
    unfolding createEnvelope_eq canon by (auto simp add: Let_def split: if_splits)
  have pre: "canonical_preimage e = canonical_preimage ?u"
    by (simp add: e canonical_preimage_def)
  have cur: "p_cursor p = JUndefined \<Longrightarrow> e_cursor e = JNull"
    by (simp add: e fields default_to_def js_or_def)
  have prv: "p_prevDigest p = JUndefined \<Longrightarrow> e_prev_digest e = JNull"
    by (simp add: e fields default_to_def js_or_def)
  have sub1: "e_cursor e = JNull \<Longrightarrow>
      sublist ('','' @ key_text ''cursor'' @ ''null,'') (canonical_preimage e)"
    unfolding sublist_def canonical_preimage_def
    by (rule exI [of _ "''{'' @ key_text ''cache_ttl'' @ field_text (e_cache_ttl e)"])
       (simp add: field_text_def)
  have sub2: "e_prev_digest e = JNull \<Longrightarrow>
      sublist ('','' @ key_text ''prev_digest'' @ ''null,'') (canonical_preimage e)"
    unfolding sublist_def canonical_preimage_def
    by (rule exI [of _ "''{'' @ key_text ''cache_ttl'' @ field_text (e_cache_ttl e) @ '','' @
     key_text ''cursor'' @ field_text (e_cursor e) @ '','' @
     key_text ''meta'' @ field_text (e_meta e) @ '','' @
     key_text ''method'' @ field_text (e_method e) @ '','' @
     key_text ''name'' @ field_text (e_name e) @ '','' @
     key_text ''params'' @ field_text (e_params e)"])
       (simp add: field_text_def)
  have dig: "e_digest e = JStr (hexlify (keccak L (toUtf8Bytes (canonical_preimage e))))"
    unfolding pre by (simp add: e d)
  show ?thesis
    using dig cur prv sub1 sub2 by blast
qed

theorem digest_exactness_witness:
  "\<exists>e. createEnvelope stub_crypto stub_params = Inr e
     \<and> e_digest e = JStr (hexlify (keccak stub_crypto (toUtf8Bytes (canonical_preimage e))))
     \<and> e_cursor e = JNull \<and> e_prev_digest e = JNull
     \<and> sublist ('','' @ key_text ''cursor'' @ ''null,'') (canonical_preimage e)
     \<and> sublist ('','' @ key_text ''prev_digest'' @ ''null,'') (canonical_preimage e)
     \<and> canonical_preimage e =
       ''{'' @ [CHR 0x22] @ ''cache_ttl'' @ [CHR 0x22] @ '':30,''
       @ [CHR 0x22] @ ''cursor'' @ [CHR 0x22] @ '':null,''
       @ [CHR 0x22] @ ''meta'' @ [CHR 0x22] @ '':'' @ [CHR 0x22] @ ''{}'' @ [CHR 0x22] @ '',''
       @ [CHR 0x22] @ ''method'' @ [CHR 0x22] @ '':'' @ [CHR 0x22] @ ''pricefeed'' @ [CHR 0x22] @ '',''
       @ [CHR 0x22] @ ''name'' @ [CHR 0x22] @ '':'' @ [CHR 0x22] @ ''pricefeed.eth'' @ [CHR 0x22] @ '',''
       @ [CHR 0x22] @ ''params'' @ [CHR 0x22] @ '':'' @ [CHR 0x22]
          @ ''{'' @ [CHR 0x5C, CHR 0x22] @ ''pair'' @ [CHR 0x5C, CHR 0x22] @ '':''
          @ [CHR 0x5C, CHR 0x22] @ ''ethereum'' @ [CHR 0x5C, CHR 0x22] @ ''}'' @ [CHR 0x22] @ '',''
       @ [CHR 0x22] @ ''prev_digest'' @ [CHR 0x22] @ '':null,''
       @ [CHR 0x22] @ ''result'' @ [CHR 0x22] @ '':'' @ [CHR 0x22]
          @ ''{'' @ [CHR 0x5C, CHR 0x22] @ ''success'' @ [CHR 0x5C, CHR 0x22] @ '':true}''
          @ [CHR 0x22] @ ''}''"
proof -
  obtain e where e: "createEnvelope stub_crypto stub_params = Inr e"
    using stub_built by blast
  have "typeof (p_name stub_params) = ''string''" "typeof (p_method stub_params) = ''string''"
    "p_params stub_params \<noteq> JUndefined" "p_result stub_params \<noteq> JUndefined"
    "p_cacheTtl stub_params = JUndefined \<or> typeof (p_cacheTtl stub_params) = ''number''"
    "p_cursor stub_params = JUndefined" "p_prevDigest stub_params = JUndefined"
    by (simp_all add: stub_params_def)
  with digest_exactness [OF e] e stub_preimage [OF e] show ?thesis by blast
qed

section \<open>C2: the signature\<close>

text \<open>
  Claim C2. Let the primitives keep their contract: the hash has 32 bytes, and the
  wallet's signature over a 32-byte hash has a 32-byte \<open>r\<close>, a 32-byte low \<open>s\<close>, a \<open>v\<close> of
  27 or 28, and recovers to the signer's address. Then the signature field of every
  envelope the builder produces is 65 bytes, \<open>r\<close> then \<open>s\<close> then \<open>v\<close>; it is the wallet's
  signature over the keccak-256 hash of the EIP-191 prefix followed by the 32 bytes of the
  digest; its \<open>v\<close> is 27 or 28, its \<open>s\<close> is low, and recovering the signer from that hash and
  the signature read back gives the configured signer.
\<close>

theorem signature_validity:
  assumes built: "createEnvelope L p = Inr e"
    and hash32: "\<And>m. length (keccak L m) = 32"
    and signer_contract: "\<And>h. length h = 32 \<Longrightarrow>
        length (sig_r (ecsign L h)) = 32 \<and> length (sig_s (ecsign L h)) = 32
        \<and> sig_v (ecsign L h) \<in> {27, 28} \<and> low_s (sig_s (ecsign L h))
        \<and> ecrecover h (ecsign L h) = signer"
  shows "\<exists>d sg. hex_bytes (e_digest e) = Some d \<and> length d = 32
      \<and> hex_bytes (e_signature e) = Some sg \<and> length sg = 65
      \<and> split_signature sg = ecsign L (keccak L (eip191_prefix @ d))
      \<and> sig_v (split_signature sg) \<in> {27, 28}
      \<and> low_s (sig_s (split_signature sg))
      \<and> ecrecover (keccak L (eip191_prefix @ d)) (split_signature sg) = signer"
proof -
  from built obtain d where
    d: "e_digest e = JStr (hexlify d)" and len_d: "length d = 32"
    and sg: "e_signature e = JStr (hexlify (sig_r (ecsign L (keccak L (eip191_prefix @ d)))
        @ sig_s (ecsign L (keccak L (eip191_prefix @ d)))
        @ [char_of (sig_v (ecsign L (keccak L (eip191_prefix @ d))))]))"
    unfolding createEnvelope_eq by (auto simp add: Let_def hash32 split: if_splits)
  let ?h = "keccak L (eip191_prefix @ d)"
  let ?s = "ecsign L ?h"
  let ?sg = "sig_r ?s @ sig_s ?s @ [char_of (sig_v ?s)]"
  have c: "length (sig_r ?s) = 32" "length (sig_s ?s) = 32" "sig_v ?s \<in> {27, 28}"
    "low_s (sig_s ?s)" "ecrecover ?h ?s = signer"
    using signer_contract [OF hash32 [of "eip191_prefix @ d"]] by simp_all
  have v: "sig_v ?s < 256"
    using c(3) by auto
  have split: "split_signature ?sg = ?s"
    by (simp add: split_signature_concat [OF c(1) c(2) v])
  have "hex_bytes (e_digest e) = Some d" "hex_bytes (e_signature e) = Some ?sg"
    by (simp_all add: hex_bytes_def d sg getBytes_hexlify del: getBytes.simps(2))
  moreover have "length ?sg = 65" by (simp add: c(1) c(2))
  ultimately show ?thesis
    using len_d split c by (intro exI [of _ d] exI [of _ ?sg]) simp
qed

theorem signature_validity_witness:
  "\<exists>e d sg. createEnvelope stub_crypto stub_params = Inr e
      \<and> hex_bytes (e_digest e) = Some d \<and> length d = 32
      \<and> hex_bytes (e_signature e) = Some sg \<and> length sg = 65
      \<and> split_signature sg = ecsign stub_crypto (keccak stub_crypto (eip191_prefix @ d))
      \<and> sig_v (split_signature sg) \<in> {27, 28}
      \<and> low_s (sig_s (split_signature sg))
      \<and> stub_ecrecover (keccak stub_crypto (eip191_prefix @ d)) (split_signature sg)
          = ''gateway''"
proof -
  obtain e where e: "createEnvelope stub_crypto stub_params = Inr e"
    using stub_built by blast
  have h: "\<And>m. length (keccak stub_crypto m) = 32"
    by (simp add: stub_crypto_def)
  have c: "\<And>h. length h = 32 \<Longrightarrow>
        length (sig_r (ecsign stub_crypto h)) = 32 \<and> length (sig_s (ecsign stub_crypto h)) = 32
        \<and> sig_v (ecsign stub_crypto h) \<in> {27, 28} \<and> low_s (sig_s (ecsign stub_crypto h))
        \<and> stub_ecrecover h (ecsign stub_crypto h) = ''gateway''"
    by (simp add: stub_crypto_def stub_ecrecover_def low_s_leading_zero)
  from signature_validity [of stub_crypto stub_params e stub_ecrecover "''gateway''", OF e h c]
  show ?thesis using e by blast
qed

section \<open>C3: the two response encodings\<close>



section \<open>C4: the defaults of the decoder\<close>

text \<open>
  Claim C4 says that every decoding error falls back to the method \<open>pricefeed\<close> and empty
  parameters. When the ABI payload decodes and only the JSON of its parameter bytes does
  not parse, the method name has been assigned already, and the inner \<open>catch\<close> keeps it:
\<close>

theorem params_parse_failure_keeps_method:
  "abi_decode stub_runtime [''string'', ''bytes''] ''0x03''
     = Some (''daovotes'', hexlify ''not json'')
   \<and> parse_params_bytes stub_runtime (hexlify ''not json'') = None
   \<and> decodeCallData stub_runtime (JStr ''0x03'') =
       (JStr ''daovotes'', JObj [],
        [AbiDecode ''0x03'', JsonParse (hexlify ''not json''),
         Warn ''Could not parse params JSON:''])
   \<and> fst (decodeCallData stub_runtime (JStr ''0x03'')) \<noteq> JStr ''pricefeed''"
proof -
  have a: "abi_decode stub_runtime [''string'', ''bytes''] ''0x03''
      = Some (''daovotes'', hexlify ''not json'')"
    by (simp add: stub_runtime_def)
  have d: "decodeCallData stub_runtime (JStr ''0x03'') =
       (JStr ''daovotes'', JObj [],
        [AbiDecode ''0x03'', JsonParse (hexlify ''not json''),
         Warn ''Could not parse params JSON:''])"
    by (simp add: decodeCallData_def has_call_data_def decode_hex_def a
        stub_parse_not_json hexlify_nonempty js_or_def Let_def)
  show ?thesis using a stub_parse_not_json by (simp add: d)
qed

text \<open>
  Claim C4, amended. When the data is missing or empty the decoder yields the method
  \<open>pricefeed\<close> and the empty parameters and logs no warning. When the ABI decoding of a hex
  string fails, or a string that is not hex fails to parse as JSON, it yields the same
  defaults. When the ABI payload decodes and its parameter bytes fail to parse, the
  parameters are empty and the method is the decoded name (\<open>pricefeed\<close> only where the
  decoded name is empty).
\<close>

theorem decode_defaults:
  "(\<not> has_call_data d \<longrightarrow> decodeCallData R d = (JStr ''pricefeed'', JObj [], []))
   \<and> (take 2 s = ''0x'' \<and> abi_decode R [''string'', ''bytes''] s = None \<longrightarrow>
        fst (decodeCallData R (JStr s)) = JStr ''pricefeed''
        \<and> fst (snd (decodeCallData R (JStr s))) = JObj [])
   \<and> (s \<noteq> [] \<and> take 2 s \<noteq> ''0x'' \<and> json_parse R s = None \<longrightarrow>
        fst (decodeCallData R (JStr s)) = JStr ''pricefeed''
        \<and> fst (snd (decodeCallData R (JStr s))) = JObj [])
   \<and> (take 2 s = ''0x'' \<and> abi_decode R [''string'', ''bytes''] s = Some (decoded0, paramsBytes)
        \<and> paramsBytes \<noteq> [] \<and> parse_params_bytes R paramsBytes = None \<longrightarrow>
        fst (decodeCallData R (JStr s)) = js_or (JStr decoded0) (JStr ''pricefeed'')
        \<and> fst (snd (decodeCallData R (JStr s))) = JObj [])"
proof (intro conjI impI)
  assume "\<not> has_call_data d"
  then show "decodeCallData R d = (JStr ''pricefeed'', JObj [], [])"
    by (simp add: decodeCallData_def default_method_def)
next
  assume a: "take 2 s = ''0x'' \<and> abi_decode R [''string'', ''bytes''] s = None"
  then have "s \<noteq> []" by auto
  with a show "fst (decodeCallData R (JStr s)) = JStr ''pricefeed''"
    and "fst (snd (decodeCallData R (JStr s))) = JObj []"
    by (simp_all add: decodeCallData_def has_call_data_def decode_hex_def default_method_def)
next
  assume a: "s \<noteq> [] \<and> take 2 s \<noteq> ''0x'' \<and> json_parse R s = None"
  then show "fst (decodeCallData R (JStr s)) = JStr ''pricefeed''"
    and "fst (snd (decodeCallData R (JStr s))) = JObj []"
    by (simp_all add: decodeCallData_def has_call_data_def decode_json_def default_method_def)
next
  assume a: "take 2 s = ''0x'' \<and> abi_decode R [''string'', ''bytes''] s = Some (decoded0, paramsBytes)
        \<and> paramsBytes \<noteq> [] \<and> parse_params_bytes R paramsBytes = None"
  then have "s \<noteq> []" by auto
  with a show "fst (decodeCallData R (JStr s)) = js_or (JStr decoded0) (JStr ''pricefeed'')"
    and "fst (snd (decodeCallData R (JStr s))) = JObj []"
    by (simp_all add: decodeCallData_def has_call_data_def decode_hex_def default_method_def
        Let_def)
qed

theorem decode_defaults_witness:
  "\<not> has_call_data JUndefined \<and> \<not> has_call_data (JStr [])
   \<and> decodeCallData stub_runtime JUndefined = (JStr ''pricefeed'', JObj [], [])
   \<and> decodeCallData stub_runtime (JStr []) = (JStr ''pricefeed'', JObj [], [])
   \<and> abi_decode stub_runtime [''string'', ''bytes''] ''0x04'' = None
   \<and> fst (decodeCallData stub_runtime (JStr ''0x04'')) = JStr ''pricefeed''
   \<and> fst (snd (decodeCallData stub_runtime (JStr ''0x04''))) = JObj []
   \<and> json_parse stub_runtime ''{oops'' = None
   \<and> fst (decodeCallData stub_runtime (JStr ''{oops'')) = JStr ''pricefeed''
   \<and> fst (snd (decodeCallData stub_runtime (JStr ''{oops''))) = JObj []
   \<and> parse_params_bytes stub_runtime (hexlify ''not json'') = None
   \<and> fst (decodeCallData stub_runtime (JStr ''0x03'')) = JStr ''daovotes''
   \<and> fst (snd (decodeCallData stub_runtime (JStr ''0x03''))) = JObj []"
proof -
  have e: "\<not> has_call_data JUndefined" "\<not> has_call_data (JStr [])"
    by (simp_all add: has_call_data_def)
  have a4: "take 2 ''0x04'' = ''0x'' \<and> abi_decode stub_runtime [''string'', ''bytes''] ''0x04'' = None"
    by (simp add: stub_runtime_def)
  have j: "''{oops'' \<noteq> [] \<and> take 2 ''{oops'' \<noteq> ''0x'' \<and> json_parse stub_runtime ''{oops'' = None"
    by (simp add: stub_runtime_def)
  have a3: "take 2 ''0x03'' = ''0x''
      \<and> abi_decode stub_runtime [''string'', ''bytes''] ''0x03''
          = Some (''daovotes'', hexlify ''not json'')
      \<and> hexlify ''not json'' \<noteq> [] \<and> parse_params_bytes stub_runtime (hexlify ''not json'') = None"
    by (simp add: stub_parse_not_json hexlify_nonempty) (simp add: stub_runtime_def)
  from decode_defaults [of JUndefined stub_runtime "''0x04''"] e(1) a4
  have 1: "decodeCallData stub_runtime JUndefined = (JStr ''pricefeed'', JObj [], [])"
    "fst (decodeCallData stub_runtime (JStr ''0x04'')) = JStr ''pricefeed''"
    "fst (snd (decodeCallData stub_runtime (JStr ''0x04''))) = JObj []"
    by blast+
  from decode_defaults [of "JStr []" stub_runtime "''{oops''"] e(2) j
  have 2: "decodeCallData stub_runtime (JStr []) = (JStr ''pricefeed'', JObj [], [])"
    "fst (decodeCallData stub_runtime (JStr ''{oops'')) = JStr ''pricefeed''"
    "fst (snd (decodeCallData stub_runtime (JStr ''{oops''))) = JObj []"
    by blast+
  from decode_defaults [of JUndefined stub_runtime "''0x03''" "''daovotes''" "hexlify ''not json''"] a3
  have 3: "fst (decodeCallData stub_runtime (JStr ''0x03'')) = JStr ''daovotes''"
    "fst (snd (decodeCallData stub_runtime (JStr ''0x03''))) = JObj []"
    by (simp_all add: js_or_def)
  show ?thesis using e a4 j a3 1 2 3 by simp
qed

section \<open>C5: the sliding window\<close>

text \<open>
  Claim C5. Let requests and sweeps happen at clock readings that never go back, starting
  from the limiters as the module creates them (the ip limiter with a window of 60 s and a
  maximum of 100, the apiKey limiter with 60 s and 1000; a request uses the apiKey limiter
  when it carries a non-empty \<open>X-API-Key\<close> header, keyed by the header, and the ip limiter
  otherwise, keyed by its address). Then for every key \<open>k\<close> and every instant \<open>a\<close>, the
  requests admitted for \<open>k\<close> in the closed interval from \<open>a\<close> to \<open>a\<close> + 60 s are at most 100
  on the ip limiter and at most 1000 on the apiKey limiter. A denied \<open>check\<close> leaves for the
  key its old list without the expired front, with nothing appended; and when the selected
  limiter denies, the middleware answers 429 with the body
  \<open>{error: "Rate limit exceeded", retryAfter: 60, remaining: 0}\<close>.
\<close>

theorem rate_limit_sliding_window:
  assumes mono: "sorted (concat (map event_times evs))"
    and run: "run_gateway initial_limiters evs = (ls, log)"
    and denied: "check rl key now = (False, rl')"
    and selected: "check (if truthy (x_api_key req) then apiKeyRateLimiter ls0
                          else ipRateLimiter ls0) (identifier_of req) now1 = (False, rl1)"
  shows "int (length (admitted_in False k a (a + 60000) log)) \<le> 100
    \<and> int (length (admitted_in True k a (a + 60000) log)) \<le> 1000
    \<and> times_of rl' key = shift_old (now - windowMs rl) (times_of rl key)
    \<and> fst (rateLimitMiddleware ls0 req now1 now2 now3) = Denied 429 rate_limit_body"
proof -
  from sorted_from_least [OF mono] obtain T where "sorted (T # concat (map event_times evs))" ..
  from gateway_ok_run [OF gateway_ok_initial this run] obtain T' where
    ok: "gateway_ok ls log T'" by auto
  have ip: "int (length (admitted_in False k a (a + 60000) log)) \<le> 100"
    using ok unfolding gateway_ok_def sliding_ok_def admitted_in_hist by metis
  have api: "int (length (admitted_in True k a (a + 60000) log)) \<le> 1000"
    using ok unfolding gateway_ok_def sliding_ok_def admitted_in_hist by metis
  have "times_of rl' key = shift_old (now - windowMs rl) (times_of rl key)"
    using check_denied [OF denied] by (simp add: times_of_update)
  with ip api middleware_denied [OF selected, of now2 now3] show ?thesis by simp
qed

theorem rate_limit_sliding_window_witness:
  "sorted (concat (map event_times demo_events))
   \<and> (\<exists>ls log. run_gateway initial_limiters demo_events = (ls, log)
        \<and> log = [(demo_client, 1000), (demo_client, 300001)]
        \<and> int (length (admitted_in False (JStr ''10.0.0.1'') 1000 (1000 + 60000) log)) \<le> 100
        \<and> int (length (admitted_in True (JStr ''10.0.0.1'') 1000 (1000 + 60000) log)) \<le> 1000)
   \<and> fst (check full_limiter (JStr ''10.0.0.1'') 60400) = False
   \<and> times_of (snd (check full_limiter (JStr ''10.0.0.1'') 60400)) (JStr ''10.0.0.1'')
        = [500, 900]
   \<and> fst (rateLimitMiddleware
        \<lparr>ipRateLimiter = full_limiter, apiKeyRateLimiter = full_limiter\<rparr>
        demo_client 60400 60400 60400) = Denied 429 rate_limit_body"
proof -
  have s: "sorted (concat (map event_times demo_events))"
    by (simp add: demo_events_def)
  obtain ls where r: "run_gateway initial_limiters demo_events
     = (ls, [(demo_client, 1000), (demo_client, 300001)])"
    using demo_run by blast
  let ?ls0 = "\<lparr>ipRateLimiter = full_limiter, apiKeyRateLimiter = full_limiter\<rparr>"
  have sel: "check (if truthy (x_api_key demo_client) then apiKeyRateLimiter ?ls0
                          else ipRateLimiter ?ls0) (identifier_of demo_client) 60400
      = (False, full_limiter\<lparr>store := [JStr ''10.0.0.1'' \<mapsto> [500, 900]]\<rparr>)"
    using full_check by (simp add: demo_client_def identifier_of_def js_or_def)
  have sh: "shift_old (60400 - windowMs full_limiter) (times_of full_limiter (JStr ''10.0.0.1''))
      = [500, 900]"
    by (simp add: full_limiter_def times_of_def)
  from rate_limit_sliding_window [OF s r full_check sel,
      of "JStr ''10.0.0.1''" 1000 60400 60400]
  show ?thesis using s r full_check sh by simp
qed
section \<open>C6: a request that fails validation\<close>

text \<open>
  Claim C6 says that every request whose data is larger than 100 KiB when serialised, and
  every request on which a validation rule fails, is answered 400 with the body
  \<open>{error: "Validation failed", details: [reasons]}\<close>. The validator is the third stage
  of the pipeline and measures the data in UTF-16 code units against 100000. A request with
  110000 letters of data has a body over the parser's limit and is refused with 413; the
  101st request of a client within a minute, with the name \<open>bad name!\<close>, is answered 429
  by the limiter; and data that serialises to 63004 code units and 104004 bytes passes the
  validator and is served with 200, after a dispatch and a signature.
\<close>

theorem oversized_or_invalid_without_400:
  "validation_errors (namehash_ok stub_runtime) huge_body
     = [''Request data too large (max 100KB)'']
   \<and> 100 * 1024 < serialized_bytes (b_data huge_body)
   \<and> lookup_pipeline stub_runtime initial_limiters new_Metrics huge_request 1000 1000 1000
        stub_clock = (ParserError 413, initial_limiters)
   \<and> express_json body_limit bad_name_request = Parsed bad_name_body
   \<and> validation_errors (namehash_ok stub_runtime) bad_name_body = [''Invalid ENS name'']
   \<and> fst (lookup_pipeline stub_runtime (fst (run_gateway initial_limiters burst)) new_Metrics
        bad_name_request 2000 2000 2000 stub_clock) = RateLimited 429 rate_limit_body
   \<and> express_json body_limit wide_request = Parsed wide_body
   \<and> 100 * 1024 < serialized_bytes (b_data wide_body)
   \<and> validation_errors (namehash_ok stub_runtime) wide_body = []
   \<and> (\<exists>h res e.
        fst (lookup_pipeline stub_runtime initial_limiters new_Metrics wide_request
          1000 1000 1000 stub_clock) = Routed h res
        \<and> answer res =
            Responded 200 (JObj [(''data'', JStr ''0xe1''), (''envelope'', envelope_json e)])
        \<and> calls res = [Compute (JStr ''pricefeed'') (JObj []), SignEnvelope])"
proof -
  have p0: "lookup_pipeline stub_runtime initial_limiters new_Metrics huge_request 1000 1000 1000
        stub_clock = (ParserError 413, initial_limiters)"
    by (simp add: lookup_pipeline_def express_json_def body_limit_def huge_request_def)
  have p1: "express_json body_limit bad_name_request = Parsed bad_name_body"
    by (simp add: express_json_def body_limit_def bad_name_request_def)
  have p2: "express_json body_limit wide_request = Parsed wide_body"
    by (simp add: express_json_def body_limit_def wide_request_def)
  have s: "sender bad_name_request = demo_client" "sender wide_request = demo_client"
    by (simp_all add: bad_name_request_def wide_request_def)
  have l: "fst (lookup_pipeline stub_runtime (fst (run_gateway initial_limiters burst)) new_Metrics
        bad_name_request 2000 2000 2000 stub_clock) = RateLimited 429 rate_limit_body"
  proof -
    obtain a ls1 where m:
      "rateLimitMiddleware (fst (run_gateway initial_limiters burst)) demo_client 2000 2000 2000
         = (a, ls1)"
      by (cases "rateLimitMiddleware (fst (run_gateway initial_limiters burst)) demo_client
            2000 2000 2000")
    with after_burst_denied have "a = Denied 429 rate_limit_body" by simp
    with m show ?thesis by (simp add: lookup_pipeline_def p1 s)
  qed
  obtain e where e: "answer (lookup_route stub_runtime new_Metrics stub_clock wide_body)
          = Responded 200 (JObj [(''data'', JStr ''0xe1''), (''envelope'', envelope_json e)])"
      "calls (lookup_route stub_runtime new_Metrics stub_clock wide_body)
          = [Compute (JStr ''pricefeed'') (JObj []), SignEnvelope]"
    using wide_body_served by blast
  have w: "\<exists>h res e.
        fst (lookup_pipeline stub_runtime initial_limiters new_Metrics wide_request
          1000 1000 1000 stub_clock) = Routed h res
        \<and> answer res =
            Responded 200 (JObj [(''data'', JStr ''0xe1''), (''envelope'', envelope_json e)])
        \<and> calls res = [Compute (JStr ''pricefeed'') (JObj []), SignEnvelope]"
    using e by (auto simp add: lookup_pipeline_def p2 s demo_first_admitted)
  show ?thesis
    using p0 p1 p2 l w
    by (simp add: bad_name_errors wide_body_errors wide_body_bytes huge_body_errors
        huge_body_bytes)
qed

text \<open>
  Claim C6, amended. Take a request whose body the parser hands on and which the rate
  limiter admits. When a validation rule fails for the body (the node is present and
  invalid, the name is present and not an ENS name after sanitising, \<open>JSON.stringify\<close> of
  the data has more than 100000 UTF-16 code units, so in particular more than 100 \<times> 1024,
  or the parameters are present and not an object), the pipeline answers 400 with the body
  \<open>{error: "Validation failed", details: [reasons]}\<close>, the reasons being the messages of
  the rules that failed in the order of the rules; it decodes no call data, dispatches
  nothing, signs nothing and changes no metric.
\<close>

theorem validation_failure_stops_pipeline:
  assumes parsed: "express_json body_limit req = Parsed b"
    and admitted: "rateLimitMiddleware ls (sender req) now1 now2 now3 = (Admitted h, ls')"
    and fails: "(truthy (b_node b) \<and> \<not> isValidNode (namehash_ok R) (b_node b))
      \<or> (truthy (b_name b) \<and> \<not> isValidENSName (JStr (sanitizeString (b_name b) 255)))
      \<or> (truthy (b_data b) \<and> 100000 < dataSize b)
      \<or> 100 * 1024 < dataSize b
      \<or> (truthy (b_params b) \<and> typeof (b_params b) \<noteq> ''object'')"
  shows "validation_errors (namehash_ok R) b \<noteq> []
    \<and> lookup_pipeline R ls M req now1 now2 now3 clk =
        (Routed h
          \<lparr> answer = Responded 400
              (JObj [(''error'', JStr ''Validation failed''),
                     (''details'', JArr (map JStr (validation_errors (namehash_ok R) b)))]),
            metrics_after = M, calls = [] \<rparr>, ls')
    \<and> \<not> list_ex is_decode (calls_made (fst (lookup_pipeline R ls M req now1 now2 now3 clk)))
    \<and> \<not> list_ex is_dispatch (calls_made (fst (lookup_pipeline R ls M req now1 now2 now3 clk)))
    \<and> \<not> list_ex is_sign (calls_made (fst (lookup_pipeline R ls M req now1 now2 now3 clk)))
    \<and> (100 * 1024 < dataSize b \<longrightarrow>
         ''Request data too large (max 100KB)'' \<in> set (validation_errors (namehash_ok R) b))"
proof -
  have ne: "validation_errors (namehash_ok R) b \<noteq> []"
    using fails oversized_data_rejected [of b "namehash_ok R"]
    by (auto simp add: validation_errors_def node_errors_def name_errors_def data_errors_def
        params_errors_def)
  then have r: "lookup_pipeline R ls M req now1 now2 now3 clk =
        (Routed h
          \<lparr> answer = Responded 400
              (JObj [(''error'', JStr ''Validation failed''),
                     (''details'', JArr (map JStr (validation_errors (namehash_ok R) b)))]),
            metrics_after = M, calls = [] \<rparr>, ls')"
    by (simp add: lookup_pipeline_def parsed admitted lookup_route_def validateRequest_rejects)
  show ?thesis
    using ne oversized_data_rejected [of b "namehash_ok R"] by (simp add: r calls_made_def)
qed

theorem validation_failure_stops_pipeline_witness:
  "express_json body_limit long_request = Parsed long_body
   \<and> 100 * 1024 < dataSize long_body
   \<and> fst (lookup_pipeline stub_runtime initial_limiters new_Metrics long_request 1000 1000 1000
        stub_clock) =
        Routed \<lparr> x_ratelimit_limit = 100, x_ratelimit_remaining = 99, x_ratelimit_reset = 61000 \<rparr>
          \<lparr> answer = Responded 400
              (JObj [(''error'', JStr ''Validation failed''),
                     (''details'', JArr [JStr ''Request data too large (max 100KB)''])]),
            metrics_after = new_Metrics, calls = [] \<rparr>
   \<and> \<not> list_ex is_decode (calls_made (fst (lookup_pipeline stub_runtime initial_limiters
         new_Metrics long_request 1000 1000 1000 stub_clock)))
   \<and> \<not> list_ex is_dispatch (calls_made (fst (lookup_pipeline stub_runtime initial_limiters
         new_Metrics long_request 1000 1000 1000 stub_clock)))
   \<and> \<not> list_ex is_sign (calls_made (fst (lookup_pipeline stub_runtime initial_limiters
         new_Metrics long_request 1000 1000 1000 stub_clock)))"
proof -
  have p: "express_json body_limit long_request = Parsed long_body"
    by (simp add: express_json_def body_limit_def long_request_def)
  have s: "sender long_request = demo_client" by (simp add: long_request_def)
  have a: "100 * 1024 < dataSize long_body" by (simp add: long_body_size)
  then have f: "(truthy (b_node long_body)
        \<and> \<not> isValidNode (namehash_ok stub_runtime) (b_node long_body))
      \<or> (truthy (b_name long_body)
        \<and> \<not> isValidENSName (JStr (sanitizeString (b_name long_body) 255)))
      \<or> (truthy (b_data long_body) \<and> 100000 < dataSize long_body)
      \<or> 100 * 1024 < dataSize long_body
      \<or> (truthy (b_params long_body) \<and> typeof (b_params long_body) \<noteq> ''object'')"
    by blast
  from validation_failure_stops_pipeline [OF p demo_first_admitted [folded s] f,
      of new_Metrics stub_clock] p a
  show ?thesis by (simp add: long_body_errors calls_made_def)
qed


section \<open>C7: the defaults of the builder\<close>

text \<open>
  Claim C7 says that the built envelope's \<open>cache_ttl\<close> is 30 exactly when the field is
  absent from the input. It is 30 also when the caller supplies 30; and the lookup route
  always supplies the field, with 30 when the request's \<open>cacheTtl\<close> is missing or falsy, as
  for a request whose parameters say \<open>cacheTtl: 0\<close>.
\<close>

theorem cache_ttl_30_when_supplied:
  "p_cacheTtl (stub_params\<lparr>p_cacheTtl := JNum 30\<rparr>) \<noteq> JUndefined
   \<and> map_sum id e_cache_ttl (createEnvelope stub_crypto (stub_params\<lparr>p_cacheTtl := JNum 30\<rparr>))
       = Inr (JNum 30)
   \<and> js_prop [(''cacheTtl'', JNum 0)] ''cacheTtl'' \<noteq> JUndefined
   \<and> map_sum id p_cacheTtl
         (lookup_envelope_params stub_clock sample_body (JStr ''pricefeed'')
            (JObj [(''cacheTtl'', JNum 0)]) stub_result)
       = Inr (JNum 30)"
proof -
  let ?p = "stub_params\<lparr>p_cacheTtl := JNum 30\<rparr>"
  obtain e where e: "createEnvelope stub_crypto ?p = Inr e"
    by (simp add: createEnvelope_eq stub_crypto_def Let_def)
  have "e_cache_ttl e = JNum 30"
    using createEnvelope_fields [OF e]
    by (auto simp add: unsigned_envelope_simps default_to_def)
  then have 1: "map_sum id e_cache_ttl (createEnvelope stub_crypto ?p) = Inr (JNum 30)"
    by (simp add: e)
  have 2: "map_sum id p_cacheTtl
         (lookup_envelope_params stub_clock sample_body (JStr ''pricefeed'')
            (JObj [(''cacheTtl'', JNum 0)]) stub_result)
       = Inr (JNum 30)"
    by (simp add: lookup_envelope_params_def js_prop_def js_or_def)
  show ?thesis using 1 2 by (simp add: js_prop_def)
qed

text \<open>
  Claim C7, amended. In envelope construction a missing cache lifetime becomes 30 and a
  supplied one is kept as it is; a missing cursor becomes null, a missing previous digest
  becomes null, and a missing meta becomes the string \<open>{}\<close>.
\<close>

theorem envelope_defaults:
  assumes "createEnvelope L p = Inr e"
  shows "(p_cacheTtl p = JUndefined \<longrightarrow> e_cache_ttl e = JNum 30)
    \<and> (p_cacheTtl p \<noteq> JUndefined \<longrightarrow> e_cache_ttl e = p_cacheTtl p)
    \<and> (p_cursor p = JUndefined \<longrightarrow> e_cursor e = JNull)
    \<and> (p_prevDigest p = JUndefined \<longrightarrow> e_prev_digest e = JNull)
    \<and> (p_meta p = JUndefined \<longrightarrow> e_meta e = JStr ''{}'')"
proof -
  from createEnvelope_fields [OF assms] obtain d sg
    where e: "e = (unsigned_envelope p)\<lparr>e_digest := JStr d, e_signature := JStr sg\<rparr>"
    by blast
  show ?thesis
    by (simp add: e unsigned_envelope_simps default_to_def js_or_def string_or_json_def
        JSON_stringify_def object_text_def join_with_def)
qed

theorem envelope_defaults_witness:
  "\<exists>e. createEnvelope stub_crypto stub_params = Inr e
     \<and> e_cache_ttl e = JNum 30 \<and> e_cursor e = JNull \<and> e_prev_digest e = JNull
     \<and> e_meta e = JStr ''{}''"
proof -
  obtain e where e: "createEnvelope stub_crypto stub_params = Inr e"
    using stub_built by blast
  have "p_cacheTtl stub_params = JUndefined" "p_cursor stub_params = JUndefined"
    "p_prevDigest stub_params = JUndefined" "p_meta stub_params = JUndefined"
    by (simp_all add: stub_params_def)
  with envelope_defaults [OF e] e show ?thesis by blast
qed

section \<open>C8: an unregistered method\<close>

text \<open>
  Claim C8 expects, for a request that names an unregistered method, the answer 500 with
  the dispatcher's message and one more counted error. The dispatcher does raise
  \<open>Unknown compute function: nosuch\<close>; the handler's \<open>catch\<close> block then fails on its own
  before it records or answers anything, so the request gets no response from the handler
  and the error counter stays where it was. Run on the request whose call data decodes to
  the method \<open>nosuch\<close>:
\<close>

theorem unknown_method_no_response:
  "executeCompute stub_runtime (JStr ''nosuch'') (JObj []) =
     Inl (Error ''Unknown compute function: nosuch'')
   \<and> lookup_route stub_runtime new_Metrics stub_clock nosuch_body =
     \<lparr> answer = Rejected (ReferenceError ''functionName is not defined''),
       metrics_after = new_Metrics,
       calls = [AbiDecode ''0x02'', JsonParse (hexlify ''{}''),
                Compute (JStr ''nosuch'') (JObj [])] \<rparr>
   \<and> requests_errors (metrics_after
        (lookup_route stub_runtime new_Metrics stub_clock nosuch_body)) = 0"
proof -
  have d: "b_data (sanitized_body nosuch_body) = JStr ''0x02''"
    by (simp add: sanitized_body_fields nosuch_body_def)
  have n: "truthy (b_node (sanitized_body nosuch_body))"
    by (simp add: sanitized_body_fields nosuch_body_def sample_body_def zero_node_def
        hexlify_nonempty)
  have r: "lookup_route stub_runtime new_Metrics stub_clock nosuch_body =
     \<lparr> answer = Rejected (ReferenceError ''functionName is not defined''),
       metrics_after = new_Metrics,
       calls = [AbiDecode ''0x02'', JsonParse (hexlify ''{}''),
                Compute (JStr ''nosuch'') (JObj [])] \<rparr>"
    by (simp add: lookup_route_valid [OF nosuch_errors] lookup_handler_def n d nosuch_decoded
        nosuch_dispatch lookup_catch_def)
  show ?thesis unfolding r using nosuch_dispatch by (simp add: new_Metrics_def)
qed

section \<open>C9: a request without a node\<close>

text \<open>
  Claim C9 says that every request without a node is answered 400 with the body
  \<open>{error: 'Missing node parameter'}\<close>. The validator runs before the handler: the request
  \<open>{name: "bad name!"}\<close> has no node and is answered 400 with the validator's body instead.
\<close>

theorem missing_node_but_validation_failed:
  "\<not> truthy (b_node bad_name_body)
   \<and> answer (lookup_route stub_runtime new_Metrics stub_clock bad_name_body)
       = Responded 400 (JObj [(''error'', JStr ''Validation failed''),
                              (''details'', JArr [JStr ''Invalid ENS name''])])
   \<and> answer (lookup_route stub_runtime new_Metrics stub_clock bad_name_body)
       \<noteq> Responded 400 (JObj [(''error'', JStr ''Missing node parameter'')])"
  by (simp add: lookup_route_def validateRequest_rejects bad_name_errors)
     (simp add: bad_name_body_def)

text \<open>
  Claim C9, amended. Every request that passes the validator and whose node is missing or
  falsy is answered 400 with the body \<open>{error: 'Missing node parameter'}\<close>; no call data is
  decoded, nothing is dispatched or signed, and no metric changes.
\<close>

theorem missing_node_after_validation:
  assumes "validation_errors (namehash_ok R) b = []" and "\<not> truthy (b_node b)"
  shows "lookup_route R M clk b =
     \<lparr> answer = Responded 400 (JObj [(''error'', JStr ''Missing node parameter'')]),
       metrics_after = M, calls = [] \<rparr>"
  using assms
  by (simp add: lookup_route_def validateRequest_passes lookup_handler_def sanitized_body_fields)

theorem missing_node_after_validation_witness:
  "validation_errors (namehash_ok stub_runtime) (sample_body\<lparr>b_node := JStr []\<rparr>) = []
   \<and> \<not> truthy (b_node (sample_body\<lparr>b_node := JStr []\<rparr>))
   \<and> lookup_route stub_runtime new_Metrics stub_clock (sample_body\<lparr>b_node := JStr []\<rparr>) =
     \<lparr> answer = Responded 400 (JObj [(''error'', JStr ''Missing node parameter'')]),
       metrics_after = new_Metrics, calls = [] \<rparr>"
proof -
  have v: "validation_errors (namehash_ok stub_runtime) (sample_body\<lparr>b_node := JStr []\<rparr>) = []"
    by (simp add: validation_errors_def node_errors_def name_errors_def data_errors_def
      params_errors_def sample_body_def sanitizeString_def trim_def is_space_def
      isValidENSName_def ens_regex_def ens_char_def lower_def Let_def)
  have n: "\<not> truthy (b_node (sample_body\<lparr>b_node := JStr []\<rparr>))" by simp
  from missing_node_after_validation [OF v n] v n show ?thesis by simp
qed

section \<open>C10: the digest does not tell falsy from absent\<close>

text \<open>
  Claim C10. Two envelopes that differ only in that the cursor is the empty string in one
  and null in the other have the same digest; so have two that differ only in that the
  previous digest is the empty string or null; so have two that differ only in that the
  cache lifetime is 0 or absent. \<open>computeDigest\<close> reads every field through \<open>||\<close>.
\<close>

theorem digest_conflates_falsy_with_absent:
  "computeDigest L (e\<lparr>e_cursor := JStr []\<rparr>) = computeDigest L (e\<lparr>e_cursor := JNull\<rparr>)
   \<and> computeDigest L (e\<lparr>e_prev_digest := JStr []\<rparr>)
       = computeDigest L (e\<lparr>e_prev_digest := JNull\<rparr>)
   \<and> computeDigest L (e\<lparr>e_cache_ttl := JNum 0\<rparr>)
       = computeDigest L (e\<lparr>e_cache_ttl := JUndefined\<rparr>)"
  by (simp add: computeDigest_def js_or_def)

theorem digest_conflates_falsy_with_absent_witness:
  "computeDigest stub_crypto ((unsigned_envelope stub_params)\<lparr>e_cursor := JStr []\<rparr>)
     = computeDigest stub_crypto ((unsigned_envelope stub_params)\<lparr>e_cursor := JNull\<rparr>)
   \<and> computeDigest stub_crypto ((unsigned_envelope stub_params)\<lparr>e_prev_digest := JStr []\<rparr>)
     = computeDigest stub_crypto ((unsigned_envelope stub_params)\<lparr>e_prev_digest := JNull\<rparr>)
   \<and> computeDigest stub_crypto ((unsigned_envelope stub_params)\<lparr>e_cache_ttl := JNum 0\<rparr>)
     = computeDigest stub_crypto ((unsigned_envelope stub_params)\<lparr>e_cache_ttl := JUndefined\<rparr>)"
  using digest_conflates_falsy_with_absent [of stub_crypto "unsigned_envelope stub_params"]
  by simp

section \<open>Further properties\<close>

text \<open>
  The route never answers 500: the validator answers 400, the handler answers 400 or 200,
  and every exception inside the handler ends in the failing \<open>catch\<close> block.
\<close>

theorem lookup_never_answers_500:
  "answer (lookup_route R M clk b) \<noteq> Responded 500 payload"
proof (cases "validateRequest (namehash_ok R) b")
  case (Respond st pl)
  then have "st = 400"
    by (auto simp add: validateRequest_def Let_def split: if_splits)
  with Respond show ?thesis by (simp add: lookup_route_def)
next
  case (Next b')
  with lookup_handler_answers [of R M clk b'] show ?thesis
    by (auto simp add: lookup_route_def)
qed

text \<open>
  The dispatcher calls the function registered under the name, and for a name that the
  lookup does not find it raises an error that names it.
\<close>

theorem dispatch_by_name:
  "executeCompute R (JStr ''pricefeed'') ps = pricefeed R (default_to ps (JObj []))
   \<and> executeCompute R (JStr ''daovotes'') ps = daovotes R (default_to ps (JObj []))
   \<and> executeCompute R (JStr ''nftfloor'') ps = nftfloor R (default_to ps (JObj []))
   \<and> (computeFunctions R (js_toString f) = None \<longrightarrow>
        executeCompute R f ps = Inl (Error (''Unknown compute function: '' @ js_toString f)))"
  by (simp add: executeCompute_def computeFunctions_def)

theorem dispatch_by_name_witness:
  "executeCompute stub_runtime (JStr ''pricefeed'') (JObj []) = Inr stub_result
   \<and> computeFunctions stub_runtime (js_toString (JNum 5)) = None
   \<and> executeCompute stub_runtime (JNum 5) (JObj []) = Inl (Error ''Unknown compute function: 5'')"
proof -
  have n: "computeFunctions stub_runtime (js_toString (JNum 5)) = None"
    by (simp add: computeFunctions_def stub_runtime_def number_text_def digits_of.simps)
  from dispatch_by_name [of stub_runtime "JObj []" "JNum 5"] n
  show ?thesis
    by (simp add: stub_runtime_def default_to_def number_text_def digits_of.simps)
qed

text \<open>
  Recomputing the digest of a built envelope gives its digest field, which is the first
  check of \<open>verifyEnvelope\<close>: the digest and the signature do not enter the digest.
\<close>

theorem digest_recomputes:
  assumes "createEnvelope L p = Inr e"
  shows "e_digest e = JStr (computeDigest L e)"
proof -
  from assms obtain d sg where
    e: "e = (unsigned_envelope p)\<lparr>e_digest := JStr d, e_signature := JStr sg\<rparr>"
    and d: "d = computeDigest L (unsigned_envelope p)"
    by (auto simp add: createEnvelope_def Let_def split: sum.splits)
  have "computeDigest L e = computeDigest L (unsigned_envelope p)"
    by (simp add: e computeDigest_def)
  with e d show ?thesis by simp
qed

theorem digest_recomputes_witness:
  "\<exists>e. createEnvelope stub_crypto stub_params = Inr e \<and> e_digest e = JStr (computeDigest stub_crypto e)"
proof -
  obtain e where e: "createEnvelope stub_crypto stub_params = Inr e"
    using stub_built by blast
  from digest_recomputes [OF e] e show ?thesis by blast
qed

text \<open>
  The latency histogram is cumulative: a sample increments the bucket of every bound it
  does not exceed, and always the bucket \<open>le_inf\<close>; the request counters follow the outcome.
\<close>

theorem histogram_is_cumulative:
  "distribution (recordRequest inh M f ok latency) ''le_inf'' = distribution M ''le_inf'' + 1
   \<and> (\<forall>b \<in> set buckets.
        distribution (recordRequest inh M f ok latency) (''le_'' @ number_text b)
          = distribution M (''le_'' @ number_text b) + (if latency \<le> b then 1 else 0))
   \<and> requests_total (recordRequest inh M f ok latency) = requests_total M + 1
   \<and> requests_success (recordRequest inh M f ok latency)
        = requests_success M + (if ok then 1 else 0)
   \<and> requests_errors (recordRequest inh M f ok latency)
        = requests_errors M + (if ok then 0 else 1)"
  by (simp add: recordRequest_def buckets_def bucket_labels bump_def Let_def)

theorem histogram_is_cumulative_witness:
  "distribution (recordRequest (\<lambda>key. False) new_Metrics (JStr ''pricefeed'') True 75) ''le_inf'' = 1
   \<and> distribution (recordRequest (\<lambda>key. False) new_Metrics (JStr ''pricefeed'') True 75) ''le_50'' = 0
   \<and> distribution (recordRequest (\<lambda>key. False) new_Metrics (JStr ''pricefeed'') True 75) ''le_100'' = 1
   \<and> distribution (recordRequest (\<lambda>key. False) new_Metrics (JStr ''pricefeed'') True 75) ''le_5000'' = 1
   \<and> requests_total (recordRequest (\<lambda>key. False) new_Metrics (JStr ''pricefeed'') True 75) = 1
   \<and> requests_errors (recordRequest (\<lambda>key. False) new_Metrics (JStr ''pricefeed'') True 75) = 0"
  using histogram_is_cumulative [of "\<lambda>key. False" new_Metrics "JStr ''pricefeed''" True 75]
  by (simp add: buckets_def bucket_labels new_Metrics_def)

text \<open>
  The validator measures in UTF-16 code units and trims the no-break space: a node that
  starts with \<open>0x\<close> is valid exactly when 64 code units follow, a sanitised string has at
  most \<open>maxLength\<close> code units, a name padded with U+00A0 passes, data of 51000 letters
  U+00E9 has the size 51002 and passes, and a node of \<open>0x\<close> and 32 such letters does not.
\<close>

theorem validator_counts_code_units:
  "isValidNode nh (JStr (''0x'' @ s)) = (length s = 64)
   \<and> length (sanitizeString v n) \<le> n
   \<and> sanitizeString (JStr (CHR 0xA0 # ''pricefeed.eth'' @ [CHR 0x00, CHR 0xA0])) 255
        = ''pricefeed.eth''
   \<and> validation_errors nh (sample_body\<lparr>b_name := JStr (CHR 0xA0 # ''pricefeed.eth'')\<rparr>) = []
   \<and> dataSize (sample_body\<lparr>b_data := JStr (replicate 51000 (CHR 0xE9))\<rparr>) = 51002
   \<and> validation_errors nh (sample_body\<lparr>b_data := JStr (replicate 51000 (CHR 0xE9))\<rparr>) = []
   \<and> validation_errors nh (sample_body\<lparr>b_node := JStr (''0x'' @ replicate 32 (CHR 0xE9))\<rparr>)
        = [''Invalid node parameter'']"
proof -
  have 1: "isValidNode nh (JStr (''0x'' @ s)) = (length s = 64)"
    by (simp add: isValidNode_def)
  have 2: "length (sanitizeString v n) \<le> n"
    by (cases v) (simp_all add: sanitizeString_def Let_def)
  have 3: "sanitizeString (JStr (CHR 0xA0 # ''pricefeed.eth'' @ [CHR 0x00, CHR 0xA0])) 255
        = ''pricefeed.eth''"
    by (simp add: sanitizeString_def trim_def is_space_def Let_def)
  have 4: "isValidENSName (JStr (sanitizeString (JStr (CHR 0xA0 # ''pricefeed.eth'')) 255))"
    by (simp add: sanitizeString_def trim_def is_space_def
      isValidENSName_def ens_regex_def ens_char_def lower_def Let_def)
  have 5: "dataSize (sample_body\<lparr>b_data := JStr (replicate 51000 (CHR 0xE9))\<rparr>) = 51002"
    by (simp add: dataSize_def json_quote_plain json_escape_def)
  have 6: "\<not> isValidNode nh (JStr (''0x'' @ replicate 32 (CHR 0xE9)))"
    by (simp add: isValidNode_def)
  have b: "b_node sample_body = zero_node" "b_name sample_body = JStr ''pricefeed.eth''"
    "b_data sample_body = JStr []" "b_params sample_body = JUndefined"
    by (simp_all add: sample_body_def)
  show ?thesis
    using 1 2 3 4 5 6
    by (simp add: validation_errors_def node_errors_def name_errors_def data_errors_def
        params_errors_def b zero_node_valid sample_name_valid dataSize_def)
qed

text \<open>
  The canonical object lists the keys that are array indices first, in numeric order, then
  the others as sorted; and a method that carries the name of an inherited member gets no
  entry among the per-method counters, while any other name does.
\<close>

theorem own_keys_and_inherited_members:
  "canonicalizeJSON [(''b'', JNum 1), (''10'', JNum 2), (''9'', JNum 3), (''01'', JNum 4)]
     = ''{'' @ [CHR 0x22] @ ''9'' @ [CHR 0x22] @ '':3,'' @ [CHR 0x22] @ ''10'' @ [CHR 0x22]
       @ '':2,'' @ [CHR 0x22] @ ''01'' @ [CHR 0x22] @ '':4,'' @ [CHR 0x22] @ ''b'' @ [CHR 0x22]
       @ '':1}''
   \<and> byMethod (recordRequest (\<lambda>key. key = ''toString'') new_Metrics (JStr ''toString'') True 5)
       = byMethod new_Metrics
   \<and> byMethod (recordRequest (\<lambda>key. key = ''toString'') new_Metrics (JStr ''pricefeed'') True 5)
        ''pricefeed'' = Some \<lparr> ms_total = 1, ms_success = 1, ms_errors = 0 \<rparr>"
proof -
  have order: "own_key_order (filter (\<lambda>key. key \<noteq> ''__proto__'')
      (sort (map fst [(''b'', JNum 1), (''10'', JNum 2), (''9'', JNum 3), (''01'', JNum 4)])))
      = [''9'', ''10'', ''01'', ''b'']"
    by (simp add: own_key_order_def is_array_index_def is_digit_def digits_value_def)
  have c: "canonicalizeJSON [(''b'', JNum 1), (''10'', JNum 2), (''9'', JNum 3), (''01'', JNum 4)]
     = ''{'' @ [CHR 0x22] @ ''9'' @ [CHR 0x22] @ '':3,'' @ [CHR 0x22] @ ''10'' @ [CHR 0x22]
       @ '':2,'' @ [CHR 0x22] @ ''01'' @ [CHR 0x22] @ '':4,'' @ [CHR 0x22] @ ''b'' @ [CHR 0x22]
       @ '':1}''"
    unfolding canonicalizeJSON_def order
    by (simp add: js_prop_def object_text_def join_with_def json_quote_def json_escape_def
        number_text_def digits_of.simps)
  have m: "byMethod (recordRequest (\<lambda>key. key = ''toString'') new_Metrics (JStr ''toString'') True 5)
       = byMethod new_Metrics"
    "byMethod (recordRequest (\<lambda>key. key = ''toString'') new_Metrics (JStr ''pricefeed'') True 5)
        ''pricefeed'' = Some \<lparr> ms_total = 1, ms_success = 1, ms_errors = 0 \<rparr>"
    by (simp_all add: recordRequest_def new_Metrics_def bump_stats_def Let_def)
  show ?thesis using c m by simp
qed

end
